theory Spec2Isabelle
  imports Main
begin

section \<open>Strings of the Go runtime\<close>

text \<open>
  A Go string is a sequence of bytes; \<^typ>\<open>string\<close> is a list of 8-bit characters, so
  \<^term>\<open>length s\<close> is Go's \<^verbatim>\<open>len(s)\<close>. The functions of package \<^verbatim>\<open>strings\<close> that the
  program calls are written out here with the behaviour of the Go standard library.
\<close>

text \<open>\<^verbatim>\<open>strings.HasPrefix(s, prefix)\<close>: \<^verbatim>\<open>len(s) >= len(prefix) && s[:len(prefix)] == prefix\<close>.\<close>

definition HasPrefix :: "string \<Rightarrow> string \<Rightarrow> bool" where
  "HasPrefix s p \<longleftrightarrow> length p \<le> length s \<and> take (length p) s = p"

text \<open>\<^verbatim>\<open>strings.HasSuffix(s, suffix)\<close>, used by the trimming of trailing white space.\<close>

definition HasSuffix :: "string \<Rightarrow> string \<Rightarrow> bool" where
  "HasSuffix s p \<longleftrightarrow> length p \<le> length s \<and> drop (length s - length p) s = p"

text \<open>\<^verbatim>\<open>strings.Join(elems, sep)\<close>.\<close>

fun Join :: "string list \<Rightarrow> string \<Rightarrow> string" where
  "Join [] sep = []"
| "Join [x] sep = x"
| "Join (x # y # ys) sep = x @ sep @ Join (y # ys) sep"

text \<open>
  \<^verbatim>\<open>strings.SplitN(s, sep, 2)\<close> for a separator of one byte: the text before the first
  occurrence of the separator and the text after it, or the string alone when the
  separator does not occur.
\<close>

definition SplitN2 :: "string \<Rightarrow> char \<Rightarrow> string list" where
  "SplitN2 s c =
     (if c \<in> set s
      then [takeWhile (\<lambda>x. x \<noteq> c) s, tl (dropWhile (\<lambda>x. x \<noteq> c) s)]
      else [s])"

text \<open>
  \<^verbatim>\<open>strings.TrimSpace(s)\<close> removes every leading and trailing white space character, as
  Unicode defines it (\<^verbatim>\<open>unicode.IsSpace\<close>). On the bytes of the string these are the UTF-8
  encodings below: the six ASCII characters tab, line feed, vertical tab, form feed,
  carriage return and space, then U+0085, U+00A0, U+1680, U+2000 to U+200A, U+2028,
  U+2029, U+202F, U+205F and U+3000. No encoding is a prefix or a suffix of another one.
\<close>

definition space_runes :: "string list" where
  "space_runes =
     [[CHR 0x09], [CHR 0x0A], [CHR 0x0B], [CHR 0x0C], [CHR 0x0D], [CHR 0x20],
      [CHR 0xC2, CHR 0x85], [CHR 0xC2, CHR 0xA0],
      [CHR 0xE1, CHR 0x9A, CHR 0x80],
      [CHR 0xE2, CHR 0x80, CHR 0x80], [CHR 0xE2, CHR 0x80, CHR 0x81],
      [CHR 0xE2, CHR 0x80, CHR 0x82], [CHR 0xE2, CHR 0x80, CHR 0x83],
      [CHR 0xE2, CHR 0x80, CHR 0x84], [CHR 0xE2, CHR 0x80, CHR 0x85],
      [CHR 0xE2, CHR 0x80, CHR 0x86], [CHR 0xE2, CHR 0x80, CHR 0x87],
      [CHR 0xE2, CHR 0x80, CHR 0x88], [CHR 0xE2, CHR 0x80, CHR 0x89],
      [CHR 0xE2, CHR 0x80, CHR 0x8A],
      [CHR 0xE2, CHR 0x80, CHR 0xA8], [CHR 0xE2, CHR 0x80, CHR 0xA9],
      [CHR 0xE2, CHR 0x80, CHR 0xAF],
      [CHR 0xE2, CHR 0x81, CHR 0x9F],
      [CHR 0xE3, CHR 0x80, CHR 0x80]]"

text \<open>The number of bytes of the white space character a string starts (ends) with, or 0.\<close>

definition leading_space :: "string \<Rightarrow> nat" where
  "leading_space s = (case find (HasPrefix s) space_runes of None \<Rightarrow> 0 | Some w \<Rightarrow> length w)"

definition trailing_space :: "string \<Rightarrow> nat" where
  "trailing_space s = (case find (HasSuffix s) space_runes of None \<Rightarrow> 0 | Some w \<Rightarrow> length w)"

lemma leading_space_le: "leading_space s \<le> length s"
  by (auto simp: leading_space_def HasPrefix_def find_Some_iff split: option.splits)

lemma trailing_space_le: "trailing_space s \<le> length s"
  by (auto simp: trailing_space_def HasSuffix_def find_Some_iff split: option.splits)

function TrimLeft :: "string \<Rightarrow> string" where
  "TrimLeft s = (if leading_space s = 0 then s else TrimLeft (drop (leading_space s) s))"
  by pat_completeness auto
termination
proof (relation "measure length")
  show "wf (measure length)" by simp
next
  fix s :: string
  assume "leading_space s \<noteq> 0"
  moreover have "leading_space s \<le> length s" by (rule leading_space_le)
  ultimately show "(drop (leading_space s) s, s) \<in> measure length" by simp
qed

function TrimRight :: "string \<Rightarrow> string" where
  "TrimRight s =
     (if trailing_space s = 0 then s else TrimRight (take (length s - trailing_space s) s))"
  by pat_completeness auto
termination
proof (relation "measure length")
  show "wf (measure length)" by simp
next
  fix s :: string
  assume "trailing_space s \<noteq> 0"
  moreover have "trailing_space s \<le> length s" by (rule trailing_space_le)
  ultimately show "(take (length s - trailing_space s) s, s) \<in> measure length" by simp
qed

definition TrimSpace :: "string \<Rightarrow> string" where
  "TrimSpace s = TrimRight (TrimLeft s)"

section \<open>The exchange file parser\<close>

text \<open>
  \<^verbatim>\<open>exchange.Notification\<close>, as \<^verbatim>\<open>parse\<close> builds it and the store reads it. A Go map may
  be \<^verbatim>\<open>nil\<close>; \<^term>\<open>None\<close> is the nil map and \<^term>\<open>Some m\<close> a map that was made.
\<close>

type_synonym gomap = "(string \<rightharpoonup> string) option"

record Notification =
  Topic :: string
  Metadata :: gomap
  Message :: string

text \<open>The two error types of the parser, each with its \<^verbatim>\<open>File\<close> field.\<close>

datatype parse_error = NoTopicError string | EmptyMessageError string

definition isRule :: "string \<Rightarrow> bool" where
  "isRule line = HasPrefix line ''---''"

definition isComment :: "string \<Rightarrow> bool" where
  "isComment line = HasPrefix line ''--''"

text \<open>The loop of \<^verbatim>\<open>cleanHead\<close>, with the slice \<^verbatim>\<open>cleaned\<close> as accumulator.\<close>

fun cleanHead_loop :: "string list \<Rightarrow> string list \<Rightarrow> string list" where
  "cleanHead_loop cleaned [] = cleaned"
| "cleanHead_loop cleaned (line # rest) =
     (if line = [] \<or> isComment line then cleanHead_loop cleaned rest
      else cleanHead_loop (cleaned @ [line]) rest)"

definition cleanHead :: "string list \<Rightarrow> string list" where
  "cleanHead head = cleanHead_loop [] head"

text \<open>The loop of \<^verbatim>\<open>parseMetadata\<close> over the lines, with the map being filled.\<close>

fun parseMetadata_loop :: "(string \<rightharpoonup> string) \<Rightarrow> string list \<Rightarrow> (string \<rightharpoonup> string)" where
  "parseMetadata_loop metadata [] = metadata"
| "parseMetadata_loop metadata (line # rest) =
     (let parts = SplitN2 line (CHR '':'') in
      if length parts < 2 \<or> parts ! 0 = [] \<or> parts ! 1 = []
      then parseMetadata_loop metadata rest
      else parseMetadata_loop
             (metadata(TrimSpace (parts ! 0) \<mapsto> TrimSpace (parts ! 1))) rest)"

text \<open>
  The pair one line contributes to the map, if any: the body of the loop of
  \<^verbatim>\<open>parseMetadata\<close> on its own, for stating what the loop computes.
\<close>

definition metadata_entry :: "string \<Rightarrow> (string \<times> string) option" where
  "metadata_entry line =
     (let parts = SplitN2 line (CHR '':'') in
      if length parts < 2 \<or> parts ! 0 = [] \<or> parts ! 1 = [] then None
      else Some (TrimSpace (parts ! 0), TrimSpace (parts ! 1)))"

definition parseMetadata :: "string list \<Rightarrow> gomap" where
  "parseMetadata lines = Some (parseMetadata_loop Map.empty lines)"

text \<open>
  The loop of \<^verbatim>\<open>parse\<close> that distributes the lines: the flag \<^verbatim>\<open>insideHead\<close> and the two
  slices \<^verbatim>\<open>head\<close> and \<^verbatim>\<open>message\<close> are the loop's state.
\<close>

fun parse_loop :: "bool \<Rightarrow> string list \<Rightarrow> string list \<Rightarrow> string list \<Rightarrow> string list \<times> string list" where
  "parse_loop insideHead head message [] = (head, message)"
| "parse_loop insideHead head message (line # rest) =
     (if isRule line then parse_loop False head message rest
      else if insideHead then parse_loop insideHead (head @ [line]) message rest
      else parse_loop insideHead head (message @ [line]) rest)"

definition parse :: "string list \<Rightarrow> parse_error + Notification" where
  "parse lines =
     (let (head, message) = parse_loop True [] [] lines;
          head = cleanHead head
      in if length head < 1 then Inl (NoTopicError [])
         else if length message < 1 then Inl (EmptyMessageError [])
         else Inr \<lparr>Topic = head ! 0,
                   Metadata = parseMetadata (drop 1 head),
                   Message = Join message [CHR 0x0A]\<rparr>)"

section \<open>The store\<close>

text \<open>
  The three tables of \<^verbatim>\<open>CREATE_ALL_TABLES\<close>. The columns that SQLite fills with
  \<^verbatim>\<open>CURRENT_TIMESTAMP\<close> are left out: no operation of the program reads or writes them.
  A table is the list of its rows in insertion order. The metadata column holds what
  \<^verbatim>\<open>json.Marshal\<close> is given, a map of strings, which it always encodes.
\<close>

datatype NotificationStatus =
  NotificationStatusInput | NotificationStatusSent | NotificationStatusError

record device_row =
  device_id :: string
  public_key :: string

record topic_row =
  topic_id :: int
  topic_name :: string
  description :: string

record notification_row =
  notification_id :: int
  notification_topic :: int
  message :: string
  metadata :: gomap
  status :: NotificationStatus

text \<open>
  The committed content of the database. The two counters are the rows of
  \<^verbatim>\<open>sqlite_sequence\<close>: an \<^verbatim>\<open>AUTOINCREMENT\<close> key is one more than the largest key the table
  ever held.
\<close>

record database =
  devices :: "device_row list"
  topics :: "topic_row list"
  notifications :: "notification_row list"
  topics_seq :: int
  notifications_seq :: int

text \<open>\<^verbatim>\<open>Initialize\<close> on a fresh database creates the empty tables.\<close>

definition empty_database :: database where
  "empty_database =
     \<lparr>devices = [], topics = [], notifications = [], topics_seq = 0, notifications_seq = 0\<rparr>"

text \<open>
  The errors of package \<^verbatim>\<open>db\<close>: its five validation errors, an error returned by the
  driver (a closed handle, a cancelled context, an I/O error, a busy database), the
  violation of a \<^verbatim>\<open>UNIQUE\<close> or \<^verbatim>\<open>PRIMARY KEY\<close> constraint, and an error wrapped by
  \<^verbatim>\<open>fmt.Errorf("...: %w", err)\<close>.
\<close>

datatype db_error =
  ErrEmptyDeviceID | ErrEmptyPublicKey | ErrEmptyTopic | ErrTopicTooLong | ErrEmptyMessage
| ErrDriver | ErrConstraint
| Wrapped string db_error

text \<open>
  Every call of \<^verbatim>\<open>database/sql\<close> can return an error of the driver. Which calls do so in
  a run is an input of the model: the set of the failing calls, each named by the
  method of \<^verbatim>\<open>LibSQL\<close> that makes it and by its kind (a method makes at most one call of
  each kind on a path). The empty set is a run without driver errors.
\<close>

datatype operation =
  OpInsertDevice | OpGetOrCreateTopic | OpInsertNotification
| OpMarkNotificationSent | OpMarkNotificationError

datatype call = BeginTx | QueryRow | Exec | LastInsertId | RowsAffected | Commit

type_synonym faults = "(operation \<times> call) set"

definition MaxTopicNameLength :: nat where
  "MaxTopicNameLength = 255"

text \<open>The validation functions return \<^term>\<open>None\<close> for Go's \<^verbatim>\<open>nil\<close> error.\<close>

definition validateDevice :: "string \<Rightarrow> string \<Rightarrow> db_error option" where
  "validateDevice deviceID publicKey =
     (if deviceID = [] then Some ErrEmptyDeviceID
      else if publicKey = [] then Some ErrEmptyPublicKey
      else None)"

definition validateTopic :: "string \<Rightarrow> db_error option" where
  "validateTopic topicName =
     (if topicName = [] then Some ErrEmptyTopic
      else if length topicName > MaxTopicNameLength then Some ErrTopicTooLong
      else None)"

definition validateNotification :: "Notification \<Rightarrow> db_error option" where
  "validateNotification notif =
     (case validateTopic (Topic notif) of
        Some err \<Rightarrow> Some err
      | None \<Rightarrow> if Message notif = [] then Some ErrEmptyMessage else None)"

text \<open>
  A method works on the copy of the database its transaction sees. \<^verbatim>\<open>tx.Commit()\<close>
  makes the copy the committed content; a return without it runs the deferred
  \<^verbatim>\<open>tx.Rollback()\<close>, which leaves the committed content as it was. Every method returns
  the committed content with its result.
\<close>

text \<open>\<^verbatim>\<open>INSERT INTO devices (device_id, public_key) VALUES (?, ?)\<close>, on a primary key.\<close>

definition insert_device :: "database \<Rightarrow> string \<Rightarrow> string \<Rightarrow> db_error + database" where
  "insert_device tx deviceID publicKey =
     (if deviceID \<in> set (map device_id (devices tx)) then Inl ErrConstraint
      else Inr (tx\<lparr>devices := devices tx @ [\<lparr>device_id = deviceID, public_key = publicKey\<rparr>]\<rparr>))"

definition InsertDevice :: "faults \<Rightarrow> database \<Rightarrow> string \<Rightarrow> string \<Rightarrow> database \<times> db_error option" where
  "InsertDevice fails s deviceID publicKey =
     (case validateDevice deviceID publicKey of
        Some err \<Rightarrow> (s, Some err)
      | None \<Rightarrow>
          if (OpInsertDevice, BeginTx) \<in> fails
          then (s, Some (Wrapped ''failed to begin transaction'' ErrDriver))
          else if (OpInsertDevice, Exec) \<in> fails
          then (s, Some (Wrapped ''failed to insert device'' ErrDriver))
          else (case insert_device s deviceID publicKey of
                  Inl err \<Rightarrow> (s, Some (Wrapped ''failed to insert device'' err))
                | Inr tx \<Rightarrow>
                    if (OpInsertDevice, Commit) \<in> fails then (s, Some ErrDriver)
                    else (tx, None)))"

text \<open>\<^verbatim>\<open>SELECT topic_id FROM topics WHERE topic_name = ?\<close>, scanned by \<^verbatim>\<open>QueryRow\<close>: the first row.\<close>

definition select_topic_id :: "database \<Rightarrow> string \<Rightarrow> int option" where
  "select_topic_id tx topicName =
     map_option topic_id (find (\<lambda>r. topic_name r = topicName) (topics tx))"

text \<open>
  \<^verbatim>\<open>INSERT INTO topics (topic_name, description) VALUES (?, ?)\<close>: the name is \<^verbatim>\<open>UNIQUE\<close>, the
  key is generated. The result is the new content and \<^verbatim>\<open>LastInsertId\<close>.
\<close>

definition insert_topic :: "database \<Rightarrow> string \<Rightarrow> string \<Rightarrow> db_error + database \<times> int" where
  "insert_topic tx topicName descr =
     (if topicName \<in> set (map topic_name (topics tx)) then Inl ErrConstraint
      else let topicID = topics_seq tx + 1 in
        Inr (tx\<lparr>topics := topics tx @
                   [\<lparr>topic_id = topicID, topic_name = topicName, description = descr\<rparr>],
                 topics_seq := topicID\<rparr>, topicID))"

definition GetOrCreateTopic :: "faults \<Rightarrow> database \<Rightarrow> string \<Rightarrow> string \<Rightarrow> database \<times> (db_error + int)" where
  "GetOrCreateTopic fails s topicName descr =
     (case validateTopic topicName of
        Some err \<Rightarrow> (s, Inl err)
      | None \<Rightarrow>
          if (OpGetOrCreateTopic, BeginTx) \<in> fails
          then (s, Inl (Wrapped ''failed to begin transaction'' ErrDriver))
          else if (OpGetOrCreateTopic, QueryRow) \<in> fails
          then (s, Inl (Wrapped ''failed to get topic'' ErrDriver))
          else (case select_topic_id s topicName of
                  Some topicID \<Rightarrow> (s, Inr topicID)
                | None \<Rightarrow>
                    if (OpGetOrCreateTopic, Exec) \<in> fails
                    then (s, Inl (Wrapped ''failed to insert topic'' ErrDriver))
                    else (case insert_topic s topicName descr of
                            Inl err \<Rightarrow> (s, Inl (Wrapped ''failed to insert topic'' err))
                          | Inr (tx, topicID) \<Rightarrow>
                              if (OpGetOrCreateTopic, LastInsertId) \<in> fails
                              then (s, Inl (Wrapped ''failed to get topic ID'' ErrDriver))
                              else if (OpGetOrCreateTopic, Commit) \<in> fails
                              then (s, Inl (Wrapped ''failed to commit transaction'' ErrDriver))
                              else (tx, Inr topicID))))"

text \<open>
  \<^verbatim>\<open>INSERT INTO notifications (topic_id, message, metadata) VALUES (?, ?, ?)\<close>: the key is
  generated and the status takes its default, \<^verbatim>\<open>'INPUT'\<close>.
\<close>

definition insert_notification :: "database \<Rightarrow> int \<Rightarrow> string \<Rightarrow> gomap \<Rightarrow> database \<times> int" where
  "insert_notification tx topicID msg meta =
     (let notificationID = notifications_seq tx + 1 in
        (tx\<lparr>notifications := notifications tx @
               [\<lparr>notification_id = notificationID, notification_topic = topicID,
                 message = msg, metadata = meta, status = NotificationStatusInput\<rparr>],
             notifications_seq := notificationID\<rparr>, notificationID))"

text \<open>
  \<^verbatim>\<open>InsertNotification\<close> begins its transaction \<^verbatim>\<open>tx\<close> and then calls the method
  \<^verbatim>\<open>s.GetOrCreateTopic\<close>, which begins and commits a transaction of its own on the handle
  \<^verbatim>\<open>s.db\<close>. At that point \<^verbatim>\<open>tx\<close> has run no statement; its first one, the \<^verbatim>\<open>INSERT\<close>, sees
  the content that \<^verbatim>\<open>GetOrCreateTopic\<close> committed, and its rollback returns to that
  content.
\<close>

definition InsertNotification :: "faults \<Rightarrow> database \<Rightarrow> Notification \<Rightarrow> database \<times> (db_error + int)" where
  "InsertNotification fails s notif =
     (case validateNotification notif of
        Some err \<Rightarrow> (s, Inl err)
      | None \<Rightarrow>
          if (OpInsertNotification, BeginTx) \<in> fails
          then (s, Inl (Wrapped ''failed to begin transaction'' ErrDriver))
          else (case GetOrCreateTopic fails s (Topic notif) [] of
                  (s1, Inl err) \<Rightarrow> (s1, Inl (Wrapped ''failed to get or create topic'' err))
                | (s1, Inr topicID) \<Rightarrow>
                    if (OpInsertNotification, Exec) \<in> fails
                    then (s1, Inl (Wrapped ''failed to insert notification'' ErrDriver))
                    else (case insert_notification s1 topicID (Message notif) (Metadata notif) of
                            (tx, notificationID) \<Rightarrow>
                              if (OpInsertNotification, LastInsertId) \<in> fails
                              then (s1, Inl (Wrapped ''failed to get notification ID'' ErrDriver))
                              else if (OpInsertNotification, Commit) \<in> fails
                              then (s1, Inl (Wrapped ''failed to commit transaction'' ErrDriver))
                              else (tx, Inr notificationID))))"

text \<open>
  \<^verbatim>\<open>UPDATE notifications SET status = ? WHERE notification_id = ? AND status = ?\<close>: the new
  content and \<^verbatim>\<open>RowsAffected\<close>.
\<close>

definition update_status :: "database \<Rightarrow> NotificationStatus \<Rightarrow> int \<Rightarrow> NotificationStatus \<Rightarrow> database \<times> nat" where
  "update_status tx new notificationID old =
     (tx\<lparr>notifications :=
            map (\<lambda>r. if notification_id r = notificationID \<and> status r = old
                      then r\<lparr>status := new\<rparr> else r) (notifications tx)\<rparr>,
      length (filter (\<lambda>r. notification_id r = notificationID \<and> status r = old)
                (notifications tx)))"

definition MarkNotificationSent :: "faults \<Rightarrow> database \<Rightarrow> int \<Rightarrow> database \<times> db_error option" where
  "MarkNotificationSent fails s notificationID =
     (if (OpMarkNotificationSent, BeginTx) \<in> fails
      then (s, Some (Wrapped ''failed to begin transaction'' ErrDriver))
      else if (OpMarkNotificationSent, Exec) \<in> fails
      then (s, Some (Wrapped ''failed to mark notification as sent'' ErrDriver))
      else (case update_status s NotificationStatusSent notificationID NotificationStatusInput of
              (tx, rows) \<Rightarrow>
                if (OpMarkNotificationSent, RowsAffected) \<in> fails
                then (s, Some (Wrapped ''failed to get rows affected'' ErrDriver))
                else if rows = 0 then (s, None)
                else if (OpMarkNotificationSent, Commit) \<in> fails then (s, Some ErrDriver)
                else (tx, None)))"

definition MarkNotificationError :: "faults \<Rightarrow> database \<Rightarrow> int \<Rightarrow> database \<times> db_error option" where
  "MarkNotificationError fails s notificationID =
     (if (OpMarkNotificationError, BeginTx) \<in> fails
      then (s, Some (Wrapped ''failed to begin transaction'' ErrDriver))
      else if (OpMarkNotificationError, Exec) \<in> fails
      then (s, Some (Wrapped ''failed to mark notification as error'' ErrDriver))
      else (case update_status s NotificationStatusError notificationID NotificationStatusInput of
              (tx, rows) \<Rightarrow>
                if (OpMarkNotificationError, RowsAffected) \<in> fails
                then (s, Some (Wrapped ''failed to get rows affected'' ErrDriver))
                else if rows = 0 then (s, None)
                else if (OpMarkNotificationError, Commit) \<in> fails then (s, Some ErrDriver)
                else (tx, None)))"

text \<open>
  What the schema constrains: \<^verbatim>\<open>device_id\<close>, \<^verbatim>\<open>topic_id\<close> and \<^verbatim>\<open>notification_id\<close> are primary
  keys, \<^verbatim>\<open>topic_name\<close> is \<^verbatim>\<open>UNIQUE\<close>, and a generated key is never above the counter of its
  table.
\<close>

definition schema_ok :: "database \<Rightarrow> bool" where
  "schema_ok s \<longleftrightarrow>
     distinct (map device_id (devices s)) \<and>
     distinct (map topic_id (topics s)) \<and>
     distinct (map topic_name (topics s)) \<and>
     distinct (map notification_id (notifications s)) \<and>
     list_all (\<lambda>r. topic_id r \<le> topics_seq s) (topics s) \<and>
     list_all (\<lambda>r. notification_id r \<le> notifications_seq s) (notifications s)"

section \<open>Concurrent calls of \<^verbatim>\<open>GetOrCreateTopic\<close>\<close>

text \<open>
  Several goroutines call \<^verbatim>\<open>GetOrCreateTopic\<close> with the same arguments on one handle, as
  \<^verbatim>\<open>TestConcurrency\<close> does. Each call has a transaction of its own, and the calls
  interleave at the statements they send to the database. A call is at one of the
  points below: before \<^verbatim>\<open>BeginTx\<close>, before the \<^verbatim>\<open>SELECT\<close>, before the \<^verbatim>\<open>INSERT\<close> (the
  \<^verbatim>\<open>SELECT\<close> found no row), before \<^verbatim>\<open>LastInsertId\<close> and before \<^verbatim>\<open>Commit\<close> (with the content
  its transaction holds and the key the \<^verbatim>\<open>INSERT\<close> generated), or returned.
\<close>

datatype topic_pc =
  AtBeginTx | AtQueryRow | AtExec
| AtLastInsertId database int
| AtCommit database int
| Returned "db_error + int"

text \<open>
  The committed content, the call whose transaction has written and not yet ended (a
  database of SQLite has one writer at a time), and the point each call is at.
\<close>

record world =
  committed :: database
  writer :: "nat option"
  running :: "topic_pc list"

definition start_call :: "string \<Rightarrow> topic_pc" where
  "start_call topicName =
     (case validateTopic topicName of Some err \<Rightarrow> Returned (Inl err) | None \<Rightarrow> AtBeginTx)"

definition concurrent_calls :: "nat \<Rightarrow> string \<Rightarrow> database \<Rightarrow> world" where
  "concurrent_calls n topicName s =
     \<lparr>committed = s, writer = None, running = replicate n (start_call topicName)\<rparr>"

text \<open>
  One statement of call \<open>i\<close>. The engine is taken at its most lenient: a statement
  never waits, a reader never blocks a writer, a statement reads the content committed
  when it runs, and a commit succeeds unless the driver fails. An \<^verbatim>\<open>INSERT\<close> while
  another call's transaction holds uncommitted writes is refused by the driver (the
  database is busy); an \<^verbatim>\<open>INSERT\<close> of a name that is committed violates the \<^verbatim>\<open>UNIQUE\<close>
  constraint. The method has no retry: either error is returned to the caller. The
  \<^verbatim>\<open>tx.Commit()\<close> after a \<^verbatim>\<open>SELECT\<close> that found the row ends a transaction without writes
  and its result is dropped; it is part of the \<^verbatim>\<open>SELECT\<close> step.
\<close>

definition topic_step :: "faults \<Rightarrow> string \<Rightarrow> string \<Rightarrow> nat \<Rightarrow> world \<Rightarrow> world" where
  "topic_step fails topicName descr i w =
     (if length (running w) \<le> i then w
      else case running w ! i of
        AtBeginTx \<Rightarrow>
          w\<lparr>running := (running w)
               [i := if (OpGetOrCreateTopic, BeginTx) \<in> fails
                     then Returned (Inl (Wrapped ''failed to begin transaction'' ErrDriver))
                     else AtQueryRow]\<rparr>
      | AtQueryRow \<Rightarrow>
          w\<lparr>running := (running w)
               [i := if (OpGetOrCreateTopic, QueryRow) \<in> fails
                     then Returned (Inl (Wrapped ''failed to get topic'' ErrDriver))
                     else (case select_topic_id (committed w) topicName of
                             Some topicID \<Rightarrow> Returned (Inr topicID)
                           | None \<Rightarrow> AtExec)]\<rparr>
      | AtExec \<Rightarrow>
          if (OpGetOrCreateTopic, Exec) \<in> fails
          then w\<lparr>running := (running w)
                    [i := Returned (Inl (Wrapped ''failed to insert topic'' ErrDriver))]\<rparr>
          else if writer w \<noteq> None \<and> writer w \<noteq> Some i
          then w\<lparr>running := (running w)
                    [i := Returned (Inl (Wrapped ''failed to insert topic'' ErrDriver))]\<rparr>
          else (case insert_topic (committed w) topicName descr of
                  Inl err \<Rightarrow>
                    w\<lparr>running := (running w)
                        [i := Returned (Inl (Wrapped ''failed to insert topic'' err))]\<rparr>
                | Inr (tx, topicID) \<Rightarrow>
                    w\<lparr>writer := Some i,
                      running := (running w)[i := AtLastInsertId tx topicID]\<rparr>)
      | AtLastInsertId tx topicID \<Rightarrow>
          if (OpGetOrCreateTopic, LastInsertId) \<in> fails
          then w\<lparr>writer := None,
                 running := (running w)
                    [i := Returned (Inl (Wrapped ''failed to get topic ID'' ErrDriver))]\<rparr>
          else w\<lparr>running := (running w)[i := AtCommit tx topicID]\<rparr>
      | AtCommit tx topicID \<Rightarrow>
          if (OpGetOrCreateTopic, Commit) \<in> fails
          then w\<lparr>writer := None,
                 running := (running w)
                    [i := Returned (Inl (Wrapped ''failed to commit transaction'' ErrDriver))]\<rparr>
          else w\<lparr>committed := tx, writer := None,
                 running := (running w)[i := Returned (Inr topicID)]\<rparr>
      | Returned r \<Rightarrow> w)"

text \<open>A schedule is the list of the calls in the order they take their steps.\<close>

fun run :: "faults \<Rightarrow> string \<Rightarrow> string \<Rightarrow> nat list \<Rightarrow> world \<Rightarrow> world" where
  "run fails topicName descr [] w = w"
| "run fails topicName descr (i # schedule) w =
     run fails topicName descr schedule (topic_step fails topicName descr i w)"

section \<open>Properties of the parser\<close>

declare TrimLeft.simps [simp del] TrimRight.simps [simp del]

lemmas trim_eval =
  TrimSpace_def TrimLeft.simps TrimRight.simps leading_space_def trailing_space_def
  space_runes_def HasPrefix_def HasSuffix_def

lemmas parse_eval =
  parse_def cleanHead_def isRule_def isComment_def HasPrefix_def parseMetadata_def
  SplitN2_def

lemma cleanHead_loop_filter:
  "cleanHead_loop cleaned head = cleaned @ filter (\<lambda>line. \<not> (line = [] \<or> isComment line)) head"
  by (induction head arbitrary: cleaned) auto

lemma cleanHead_filter:
  "cleanHead head = filter (\<lambda>line. \<not> (line = [] \<or> isComment line)) head"
  by (simp add: cleanHead_def cleanHead_loop_filter)

lemma parse_loop_outside:
  "parse_loop False head body lines = (head, body @ filter (\<lambda>l. \<not> isRule l) lines)"
  by (induction lines arbitrary: body) auto

lemma parse_loop_inside:
  "parse_loop True head body lines =
     (head @ takeWhile (\<lambda>l. \<not> isRule l) lines,
      body @ filter (\<lambda>l. \<not> isRule l) (dropWhile (\<lambda>l. \<not> isRule l) lines))"
  by (induction lines arbitrary: head) (auto simp: parse_loop_outside)

lemma HasPrefix_iff: "HasPrefix s p \<longleftrightarrow> (\<exists>rest. s = p @ rest)"
proof
  assume "HasPrefix s p"
  then have "take (length p) s = p" by (simp add: HasPrefix_def)
  then have "s = p @ drop (length p) s" by (metis append_take_drop_id)
  then show "\<exists>rest. s = p @ rest" ..
next
  assume "\<exists>rest. s = p @ rest"
  then show "HasPrefix s p" by (auto simp: HasPrefix_def)
qed

lemma isRule_iff: "isRule line \<longleftrightarrow> (\<exists>rest. line = ''---'' @ rest)"
  unfolding isRule_def by (rule HasPrefix_iff)

lemma parse_unfold:
  "parse lines =
     (let head = cleanHead (takeWhile (\<lambda>l. \<not> isRule l) lines);
          body = filter (\<lambda>l. \<not> isRule l) (dropWhile (\<lambda>l. \<not> isRule l) lines)
      in if head = [] then Inl (NoTopicError [])
         else if body = [] then Inl (EmptyMessageError [])
         else Inr \<lparr>Topic = hd head, Metadata = parseMetadata (tl head),
                   Message = Join body [CHR 0x0A]\<rparr>)"
  by (cases "cleanHead (takeWhile (\<lambda>l. \<not> isRule l) lines)")
     (simp_all add: parse_def parse_loop_inside Let_def drop_Suc)

lemma parseMetadata_loop_entry:
  "parseMetadata_loop m (line # rest) =
     parseMetadata_loop
       (case metadata_entry line of None \<Rightarrow> m | Some (k, v) \<Rightarrow> m(k \<mapsto> v)) rest"
  by (simp add: metadata_entry_def Let_def)

lemma parseMetadata_loop_map_of:
  "parseMetadata_loop m lines =
     m ++ map_of (rev (List.map_filter metadata_entry lines))"
proof (induction lines arbitrary: m)
  case Nil
  show ?case by (simp add: List.map_filter_simps)
next
  case (Cons line rest)
  show ?case
  proof (cases "metadata_entry line")
    case None
    then show ?thesis
      by (simp only: parseMetadata_loop_entry Cons.IH List.map_filter_simps option.case)
  next
    case (Some kv)
    obtain k v where kv: "kv = (k, v)" by (cases kv)
    have "m(k \<mapsto> v) ++ map_of (rev (List.map_filter metadata_entry rest)) =
          m ++ map_of (rev (List.map_filter metadata_entry rest) @ [(k, v)])"
      by (simp add: fun_eq_iff map_add_def split: option.splits)
    with Some kv show ?thesis
      by (simp only: parseMetadata_loop_entry Cons.IH List.map_filter_simps option.case
            prod.case rev.simps)
  qed
qed

lemma SplitN2_colon:
  "CHR '':'' \<notin> set a \<Longrightarrow> SplitN2 (a @ CHR '':'' # b) (CHR '':'') = [a, b]"
proof -
  assume a: "CHR '':'' \<notin> set a"
  then have "takeWhile (\<lambda>x. x \<noteq> CHR '':'') (a @ CHR '':'' # b) = a"
    by (induction a) auto
  moreover from a have "dropWhile (\<lambda>x. x \<noteq> CHR '':'') (a @ CHR '':'' # b) = CHR '':'' # b"
    by (induction a) auto
  ultimately show ?thesis by (simp add: SplitN2_def)
qed

lemma SplitN2_decompose:
  assumes "c \<in> set s"
  shows "s = takeWhile (\<lambda>x. x \<noteq> c) s @ c # tl (dropWhile (\<lambda>x. x \<noteq> c) s)"
    and "c \<notin> set (takeWhile (\<lambda>x. x \<noteq> c) s)"
proof -
  from assms have ne: "dropWhile (\<lambda>x. x \<noteq> c) s \<noteq> []" by auto
  then have "hd (dropWhile (\<lambda>x. x \<noteq> c) s) = c" using hd_dropWhile [of "\<lambda>x. x \<noteq> c" s] by simp
  with ne have "dropWhile (\<lambda>x. x \<noteq> c) s = c # tl (dropWhile (\<lambda>x. x \<noteq> c) s)"
    by (cases "dropWhile (\<lambda>x. x \<noteq> c) s") simp_all
  then show "s = takeWhile (\<lambda>x. x \<noteq> c) s @ c # tl (dropWhile (\<lambda>x. x \<noteq> c) s)"
    by (metis takeWhile_dropWhile_id)
  show "c \<notin> set (takeWhile (\<lambda>x. x \<noteq> c) s)"
    using set_takeWhileD by fastforce
qed

lemma metadata_entry_iff:
  "metadata_entry line = Some (k, v) \<longleftrightarrow>
     (\<exists>a b. line = a @ '':'' @ b \<and> CHR '':'' \<notin> set a \<and> a \<noteq> [] \<and> b \<noteq> [] \<and>
            k = TrimSpace a \<and> v = TrimSpace b)"
proof
  assume e: "metadata_entry line = Some (k, v)"
  show "\<exists>a b. line = a @ '':'' @ b \<and> CHR '':'' \<notin> set a \<and> a \<noteq> [] \<and> b \<noteq> [] \<and>
            k = TrimSpace a \<and> v = TrimSpace b"
  proof (cases "CHR '':'' \<in> set line")
    case False
    with e show ?thesis by (simp add: metadata_entry_def SplitN2_def)
  next
    case True
    let ?a = "takeWhile (\<lambda>x. x \<noteq> CHR '':'') line"
    let ?b = "tl (dropWhile (\<lambda>x. x \<noteq> CHR '':'') line)"
    from True e have "?a \<noteq> [] \<and> ?b \<noteq> [] \<and> k = TrimSpace ?a \<and> v = TrimSpace ?b"
      by (auto simp: metadata_entry_def SplitN2_def Let_def split: if_splits)
    moreover from SplitN2_decompose [OF True]
    have "line = ?a @ '':'' @ ?b" and "CHR '':'' \<notin> set ?a" by simp_all
    ultimately show ?thesis by blast
  qed
next
  assume "\<exists>a b. line = a @ '':'' @ b \<and> CHR '':'' \<notin> set a \<and> a \<noteq> [] \<and> b \<noteq> [] \<and>
            k = TrimSpace a \<and> v = TrimSpace b"
  then obtain a b where "line = a @ CHR '':'' # b" "CHR '':'' \<notin> set a" "a \<noteq> []" "b \<noteq> []"
    "k = TrimSpace a" "v = TrimSpace b" by auto
  then show "metadata_entry line = Some (k, v)"
    by (simp add: metadata_entry_def SplitN2_colon)
qed

lemma map_of_rev_last:
  assumes "\<forall>p \<in> set ys. fst p \<noteq> k"
  shows "map_of (rev (xs @ (k, v) # ys)) k = Some v"
proof -
  have "map_of (rev ys) k = None"
    using assms by (auto simp: map_of_eq_None_iff image_iff)
  then show ?thesis by (simp add: map_add_def)
qed

text \<open>
  Claim C5, as amended. A separator line is a line that starts with three dashes,
  whatever follows them. The loop of \<^verbatim>\<open>parse\<close> puts the lines before the first separator
  line into the header; the body is made of the lines after the first separator line
  that are not separator lines themselves, since the loop skips every separator line
  it meets. The result of \<^verbatim>\<open>parse\<close> is computed from this header, once cleaned, and this
  body. On the example input the parser returns the topic \<open>Updates\<close>, the metadata
  \<open>Date \<mapsto> 2024-11-29\<close> and the message \<open>Server down\<close>.
\<close>

theorem parse_header_body:
  "(isRule line \<longleftrightarrow> (\<exists>rest. line = ''---'' @ rest)) \<and>
   parse_loop True [] [] lines =
     (takeWhile (\<lambda>l. \<not> isRule l) lines,
      filter (\<lambda>l. \<not> isRule l) (dropWhile (\<lambda>l. \<not> isRule l) lines)) \<and>
   parse lines =
     (let head = cleanHead (takeWhile (\<lambda>l. \<not> isRule l) lines);
          body = filter (\<lambda>l. \<not> isRule l) (dropWhile (\<lambda>l. \<not> isRule l) lines)
      in if head = [] then Inl (NoTopicError [])
         else if body = [] then Inl (EmptyMessageError [])
         else Inr \<lparr>Topic = hd head, Metadata = parseMetadata (tl head),
                   Message = Join body [CHR 0x0A]\<rparr>) \<and>
   parse [''Updates'', ''Date: 2024-11-29'', ''---'', ''Server down''] =
     Inr \<lparr>Topic = ''Updates'', Metadata = Some (map_of [(''Date'', ''2024-11-29'')]),
           Message = ''Server down''\<rparr>"
proof (intro conjI)
  show "isRule line \<longleftrightarrow> (\<exists>rest. line = ''---'' @ rest)" by (rule isRule_iff)
  show "parse_loop True [] [] lines =
     (takeWhile (\<lambda>l. \<not> isRule l) lines,
      filter (\<lambda>l. \<not> isRule l) (dropWhile (\<lambda>l. \<not> isRule l) lines))"
    by (simp add: parse_loop_inside)
  show "parse lines =
     (let head = cleanHead (takeWhile (\<lambda>l. \<not> isRule l) lines);
          body = filter (\<lambda>l. \<not> isRule l) (dropWhile (\<lambda>l. \<not> isRule l) lines)
      in if head = [] then Inl (NoTopicError [])
         else if body = [] then Inl (EmptyMessageError [])
         else Inr \<lparr>Topic = hd head, Metadata = parseMetadata (tl head),
                   Message = Join body [CHR 0x0A]\<rparr>)"
    by (rule parse_unfold)
  show "parse [''Updates'', ''Date: 2024-11-29'', ''---'', ''Server down''] =
     Inr \<lparr>Topic = ''Updates'', Metadata = Some (map_of [(''Date'', ''2024-11-29'')]),
           Message = ''Server down''\<rparr>"
    by (simp add: parse_eval trim_eval)
qed

text \<open>
  The theorem at a concrete file with a long separator and a second separator line in
  the body: the header is the topic line, the body the two lines that are no separators.
\<close>

theorem parse_header_body_witness:
  "isRule ''-----'' \<and>
   parse_loop True [] [] [''t'', ''-----'', ''a'', ''---'', ''b''] = ([''t''], [''a'', ''b''])"
  using parse_header_body [of "''-----''" "[''t'', ''-----'', ''a'', ''---'', ''b'']"]
  by (simp add: isRule_def HasPrefix_def del: parse_loop.simps)

text \<open>
  Claim C5 as stated fails: in the file below the lines after the first separator are
  \<open>a\<close>, \<open>---\<close>, \<open>b\<close>, but the body the parser collects is neither these lines nor these
  lines with the separator in front, and the message has lost the line \<open>---\<close>.
\<close>

theorem parse_body_counterexample:
  "snd (parse_loop True [] [] [''t'', ''---'', ''a'', ''---'', ''b'']) \<noteq> [''a'', ''---'', ''b''] \<and>
   snd (parse_loop True [] [] [''t'', ''---'', ''a'', ''---'', ''b'']) \<noteq> [''---'', ''a'', ''---'', ''b''] \<and>
   dropWhile (\<lambda>l. \<not> isRule l) [''t'', ''---'', ''a'', ''---'', ''b''] = [''---'', ''a'', ''---'', ''b''] \<and>
   parse [''t'', ''---'', ''a'', ''---'', ''b''] =
     Inr \<lparr>Topic = ''t'', Metadata = Some (map_of []), Message = ''a'' @ [CHR 0x0A] @ ''b''\<rparr>"
  by (simp add: parse_eval)



text \<open>
  Claim C9. Without a separator line \<^verbatim>\<open>parse\<close> never succeeds: it returns a
  \<^verbatim>\<open>NoTopicError\<close> when every line is empty or a comment, and an \<^verbatim>\<open>EmptyMessageError\<close>
  otherwise. (A blank line is the empty string: \<^verbatim>\<open>cleanHead\<close> tests \<^verbatim>\<open>line == ""\<close>.)
\<close>

theorem parse_no_separator:
  assumes "\<forall>l \<in> set lines. \<not> isRule l"
  shows "parse lines =
           (if \<forall>l \<in> set lines. l = [] \<or> isComment l then Inl (NoTopicError [])
            else Inl (EmptyMessageError []))"
proof -
  have tw: "takeWhile (\<lambda>l. \<not> isRule l) lines = lines"
    using assms by simp
  have dw: "dropWhile (\<lambda>l. \<not> isRule l) lines = []"
    using assms by simp
  have "parse lines =
      (if cleanHead lines = [] then Inl (NoTopicError []) else Inl (EmptyMessageError []))"
    unfolding parse_unfold tw dw by (simp add: Let_def)
  moreover have "cleanHead lines = [] \<longleftrightarrow> (\<forall>l \<in> set lines. l = [] \<or> isComment l)"
    by (simp add: cleanHead_filter filter_empty_conv)
  ultimately show ?thesis by simp
qed

theorem parse_no_separator_witness:
  "parse [''topic'', ''key: value'', ''body''] = Inl (EmptyMessageError []) \<and>
   parse [''-- a comment'', ''''] = Inl (NoTopicError [])"
  using parse_no_separator [of "[''topic'', ''key: value'', ''body'']"]
    parse_no_separator [of "[''-- a comment'', '''']"]
  by (simp add: isRule_def isComment_def HasPrefix_def)

text \<open>
  Claim C10. When the cleaned header and the body are both empty, \<^verbatim>\<open>parse\<close> returns a
  \<^verbatim>\<open>NoTopicError\<close> and not an \<^verbatim>\<open>EmptyMessageError\<close>: the test of the header comes first.
\<close>

theorem parse_no_topic_first:
  assumes "cleanHead (takeWhile (\<lambda>l. \<not> isRule l) lines) = []"
    and "filter (\<lambda>l. \<not> isRule l) (dropWhile (\<lambda>l. \<not> isRule l) lines) = []"
  shows "parse lines = Inl (NoTopicError []) \<and> parse lines \<noteq> Inl (EmptyMessageError [])"
  using assms by (simp add: parse_unfold)

text \<open>The file of the single line \<open>---\<close>.\<close>

theorem parse_no_topic_first_witness:
  "parse [''---''] = Inl (NoTopicError [])"
proof -
  have "cleanHead (takeWhile (\<lambda>l. \<not> isRule l) [''---'']) = []"
    and "filter (\<lambda>l. \<not> isRule l) (dropWhile (\<lambda>l. \<not> isRule l) [''---'']) = []"
    by (simp_all add: parse_eval)
  then show ?thesis using parse_no_topic_first [of "[''---'']"] by simp
qed

text \<open>
  Claim C2, as amended. \<^verbatim>\<open>parseMetadata\<close> splits a line at its first colon. The line
  contributes a pair exactly when it has a colon and the text before the colon and the
  text after it are both non-empty as they stand, before any trimming; the pair is the
  two sides with their white space trimmed. Every other line is skipped, and no line
  is an error. The map returned holds, for each key, the value of the last line that
  contributes this key, and it is a map that was made (never \<^verbatim>\<open>nil\<close>), empty when no
  line contributes.
\<close>

theorem parseMetadata_entries:
  "(metadata_entry line = Some (k, v) \<longleftrightarrow>
      (\<exists>a b. line = a @ '':'' @ b \<and> CHR '':'' \<notin> set a \<and> a \<noteq> [] \<and> b \<noteq> [] \<and>
             k = TrimSpace a \<and> v = TrimSpace b)) \<and>
   parseMetadata lines = Some (map_of (rev (List.map_filter metadata_entry lines))) \<and>
   (metadata_entry line = Some (k, v) \<and> (\<forall>l \<in> set after. \<forall>v'. metadata_entry l \<noteq> Some (k, v'))
      \<longrightarrow> (\<exists>m. parseMetadata (before @ line # after) = Some m \<and> m k = Some v)) \<and>
   ((\<forall>l \<in> set lines. metadata_entry l = None) \<longrightarrow> parseMetadata lines = Some Map.empty)"
proof (intro conjI impI)
  show "metadata_entry line = Some (k, v) \<longleftrightarrow>
      (\<exists>a b. line = a @ '':'' @ b \<and> CHR '':'' \<notin> set a \<and> a \<noteq> [] \<and> b \<noteq> [] \<and>
             k = TrimSpace a \<and> v = TrimSpace b)"
    by (rule metadata_entry_iff)
  show all: "parseMetadata lines = Some (map_of (rev (List.map_filter metadata_entry lines)))"
    for lines
    by (simp add: parseMetadata_def parseMetadata_loop_map_of)
  show "\<exists>m. parseMetadata (before @ line # after) = Some m \<and> m k = Some v"
    if h: "metadata_entry line = Some (k, v) \<and>
           (\<forall>l \<in> set after. \<forall>v'. metadata_entry l \<noteq> Some (k, v'))"
  proof -
    have "\<forall>p \<in> set (List.map_filter metadata_entry after). fst p \<noteq> k"
      using h by (auto simp: List.map_filter_def)
    then have "map_of (rev (List.map_filter metadata_entry before @ (k, v) #
                 List.map_filter metadata_entry after)) k = Some v"
      by (rule map_of_rev_last)
    moreover have "List.map_filter metadata_entry (before @ line # after) =
        List.map_filter metadata_entry before @ (k, v) # List.map_filter metadata_entry after"
      using h by (simp add: List.map_filter_def)
    ultimately show ?thesis by (simp only: all) simp
  qed
  show "parseMetadata lines = Some Map.empty" if "\<forall>l \<in> set lines. metadata_entry l = None"
  proof -
    from that have "List.map_filter metadata_entry lines = []"
      by (auto simp: List.map_filter_def filter_empty_conv)
    then show ?thesis by (simp add: all)
  qed
qed

text \<open>
  The theorem on three lines with the key \<open>k\<close> twice and a line without a colon: the
  second value is kept. The empty list of lines gives the empty map.
\<close>

theorem parseMetadata_entries_witness:
  "parseMetadata [''k: 1'', ''no colon'', ''k: 2''] = Some (map_of [(''k'', ''2'')]) \<and>
   parseMetadata [] = Some (map_of [])"
proof -
  have e: "List.map_filter metadata_entry [''k: 1'', ''no colon'', ''k: 2''] =
             [(''k'', ''1''), (''k'', ''2'')]"
    by (simp add: List.map_filter_def metadata_entry_def SplitN2_def trim_eval)
  from parseMetadata_entries [of "[]" "[]" "[]" "[''k: 1'', ''no colon'', ''k: 2'']" "[]" "[]"]
  have "parseMetadata [''k: 1'', ''no colon'', ''k: 2''] =
          Some (map_of (rev (List.map_filter metadata_entry [''k: 1'', ''no colon'', ''k: 2''])))"
    by (rule conjunct1 [OF conjunct2])
  then have "parseMetadata [''k: 1'', ''no colon'', ''k: 2''] =
          Some (map_of (rev [(''k'', ''1''), (''k'', ''2'')]))"
    by (simp only: e)
  moreover have "map_of (rev [(''k'', ''1''), (''k'', ''2'')]) = map_of [(''k'', ''2'')]"
    by (simp add: fun_eq_iff)
  moreover from parseMetadata_entries [of "[]" "[]" "[]" "[]" "[]" "[]"]
  have "parseMetadata [] = Some (map_of (rev (List.map_filter metadata_entry [])))"
    by (rule conjunct1 [OF conjunct2])
  then have "parseMetadata [] = Some (map_of [])"
    by (simp add: List.map_filter_def)
  ultimately show ?thesis by simp
qed

text \<open>
  Claim C2 as stated fails: in the line \<open>k: \<close> the value side is a single space, which
  is empty after trimming, and yet the line contributes the key \<open>k\<close> with the empty
  value; in the line \<open> : v\<close> the key side is empty after trimming and the line
  contributes the empty key.
\<close>

theorem parseMetadata_trim_counterexample:
  "TrimSpace '' '' = [] \<and>
   parseMetadata [''k: ''] = Some (map_of [(''k'', [])]) \<and>
   parseMetadata ['' : v''] = Some (map_of [([], ''v'')])"
  by (simp add: parseMetadata_def SplitN2_def trim_eval)

section \<open>Properties of the store\<close>

lemmas store_eval =
  empty_database_def validateTopic_def validateNotification_def validateDevice_def
  MaxTopicNameLength_def select_topic_id_def insert_topic_def insert_notification_def
  insert_device_def update_status_def

lemma find_distinct_name:
  assumes "distinct (map topic_name rows)" and "row \<in> set rows" and "topic_name row = name"
  shows "find (\<lambda>r. topic_name r = name) rows = Some row"
  using assms by (induction rows) (auto simp: image_iff)

lemma select_topic_id_None:
  "select_topic_id s name = None \<longleftrightarrow> name \<notin> set (map topic_name (topics s))"
  by (auto simp: select_topic_id_def find_None_iff image_iff)

lemma update_status_noop:
  assumes "\<forall>r \<in> set (notifications s). notification_id r = i \<longrightarrow> status r \<noteq> old"
  shows "update_status s new i old = (s, 0)"
proof -
  have "map (\<lambda>r. if notification_id r = i \<and> status r = old
                      then r\<lparr>status := new\<rparr> else r) (notifications s) = notifications s"
    by (rule map_idI) (use assms in auto)
  moreover from assms have "filter (\<lambda>r. notification_id r = i \<and> status r = old)
                (notifications s) = []"
    by (auto simp: filter_empty_conv)
  ultimately show ?thesis by (simp add: update_status_def)
qed

lemma update_status_rows_0:
  assumes "snd (update_status s new i old) = 0"
  shows "fst (update_status s new i old) = s"
proof -
  from assms have "\<forall>r \<in> set (notifications s). notification_id r = i \<longrightarrow> status r \<noteq> old"
    by (auto simp: update_status_def filter_empty_conv)
  then show ?thesis by (simp add: update_status_noop)
qed

lemma update_status_rows:
  "notifications (fst (update_status s new i old)) =
     map (\<lambda>r. if notification_id r = i \<and> status r = old then r\<lparr>status := new\<rparr> else r)
       (notifications s)"
  by (simp add: update_status_def)

lemma update_status_done:
  assumes "new \<noteq> old"
  shows "\<forall>r \<in> set (notifications (fst (update_status s new i old))).
           notification_id r = i \<longrightarrow> status r \<noteq> old"
proof (intro ballI impI)
  fix r
  assume "r \<in> set (notifications (fst (update_status s new i old)))"
    and rid: "notification_id r = i"
  then have "r \<in> (\<lambda>r. if notification_id r = i \<and> status r = old then r\<lparr>status := new\<rparr> else r)
       ` set (notifications s)"
    by (simp only: update_status_rows set_map)
  then obtain r0 where
    r: "r = (if notification_id r0 = i \<and> status r0 = old then r0\<lparr>status := new\<rparr> else r0)"
    by (rule imageE)
  show "status r \<noteq> old"
  proof (cases "notification_id r0 = i \<and> status r0 = old")
    case True
    with r assms show ?thesis by simp
  next
    case False
    with r rid show ?thesis by simp
  qed
qed


lemma GetOrCreateTopic_invalid:
  "validateTopic name = Some err \<Longrightarrow> GetOrCreateTopic fails s name descr = (s, Inl err)"
  by (simp add: GetOrCreateTopic_def)

lemma GetOrCreateTopic_found:
  assumes "validateTopic name = None"
    and "(OpGetOrCreateTopic, BeginTx) \<notin> fails" and "(OpGetOrCreateTopic, QueryRow) \<notin> fails"
    and "select_topic_id s name = Some topicID"
  shows "GetOrCreateTopic fails s name descr = (s, Inr topicID)"
  using assms by (simp add: GetOrCreateTopic_def)

lemma insert_topic_new:
  assumes "name \<notin> set (map topic_name (topics s))"
  shows "insert_topic s name descr =
     Inr (s\<lparr>topics := topics s @
              [\<lparr>topic_id = topics_seq s + 1, topic_name = name, description = descr\<rparr>],
            topics_seq := topics_seq s + 1\<rparr>, topics_seq s + 1)"
  using assms by (simp add: insert_topic_def Let_def)

lemma GetOrCreateTopic_created:
  assumes "validateTopic name = None"
    and "\<forall>c. (OpGetOrCreateTopic, c) \<notin> fails"
    and "name \<notin> set (map topic_name (topics s))"
  shows "GetOrCreateTopic fails s name descr =
     (s\<lparr>topics := topics s @
          [\<lparr>topic_id = topics_seq s + 1, topic_name = name, description = descr\<rparr>],
        topics_seq := topics_seq s + 1\<rparr>, Inr (topics_seq s + 1))"
proof -
  from assms(3) have "select_topic_id s name = None" by (simp add: select_topic_id_None)
  with assms(1,2) show ?thesis
    by (simp add: GetOrCreateTopic_def insert_topic_new [OF assms(3)])
qed

lemma GetOrCreateTopic_state:
  "fst (GetOrCreateTopic fails s name descr) = s \<or>
   name \<notin> set (map topic_name (topics s)) \<and>
   fst (GetOrCreateTopic fails s name descr) =
     s\<lparr>topics := topics s @
          [\<lparr>topic_id = topics_seq s + 1, topic_name = name, description = descr\<rparr>],
        topics_seq := topics_seq s + 1\<rparr>"
proof (cases "select_topic_id s name")
  case (Some topicID)
  then show ?thesis by (simp add: GetOrCreateTopic_def split: option.split)
next
  case None
  then have new: "name \<notin> set (map topic_name (topics s))" by (simp add: select_topic_id_None)
  from new show ?thesis
    by (simp add: GetOrCreateTopic_def None insert_topic_new [OF new] split: option.split)
qed

lemma GetOrCreateTopic_error_state:
  assumes "snd (GetOrCreateTopic fails s name descr) = Inl err"
  shows "fst (GetOrCreateTopic fails s name descr) = s"
proof (cases "select_topic_id s name")
  case (Some topicID)
  then show ?thesis by (simp add: GetOrCreateTopic_def split: option.split)
next
  case None
  then have new: "name \<notin> set (map topic_name (topics s))" by (simp add: select_topic_id_None)
  from assms show ?thesis
    by (simp add: GetOrCreateTopic_def None insert_topic_new [OF new] split: option.split_asm if_split_asm)
qed


lemma GetOrCreateTopic_valid_error:
  assumes "validateTopic name = None"
  shows "snd (GetOrCreateTopic fails s name descr) \<noteq> Inl ErrEmptyTopic \<and>
         snd (GetOrCreateTopic fails s name descr) \<noteq> Inl ErrTopicTooLong"
  using assms
  by (simp add: GetOrCreateTopic_def split: option.split sum.split prod.split)

lemma update_status_fst:
  "fst (update_status s new i old) =
     s\<lparr>notifications :=
         map (\<lambda>r. if notification_id r = i \<and> status r = old then r\<lparr>status := new\<rparr> else r)
           (notifications s)\<rparr>"
  by (simp add: update_status_def)

lemma MarkNotificationSent_unfold:
  "MarkNotificationSent fails s i =
     (if (OpMarkNotificationSent, BeginTx) \<in> fails
      then (s, Some (Wrapped ''failed to begin transaction'' ErrDriver))
      else if (OpMarkNotificationSent, Exec) \<in> fails
      then (s, Some (Wrapped ''failed to mark notification as sent'' ErrDriver))
      else if (OpMarkNotificationSent, RowsAffected) \<in> fails
      then (s, Some (Wrapped ''failed to get rows affected'' ErrDriver))
      else if snd (update_status s NotificationStatusSent i NotificationStatusInput) = 0
      then (s, None)
      else if (OpMarkNotificationSent, Commit) \<in> fails then (s, Some ErrDriver)
      else (fst (update_status s NotificationStatusSent i NotificationStatusInput), None))"
  by (simp add: MarkNotificationSent_def case_prod_beta)

lemma MarkNotificationError_unfold:
  "MarkNotificationError fails s i =
     (if (OpMarkNotificationError, BeginTx) \<in> fails
      then (s, Some (Wrapped ''failed to begin transaction'' ErrDriver))
      else if (OpMarkNotificationError, Exec) \<in> fails
      then (s, Some (Wrapped ''failed to mark notification as error'' ErrDriver))
      else if (OpMarkNotificationError, RowsAffected) \<in> fails
      then (s, Some (Wrapped ''failed to get rows affected'' ErrDriver))
      else if snd (update_status s NotificationStatusError i NotificationStatusInput) = 0
      then (s, None)
      else if (OpMarkNotificationError, Commit) \<in> fails then (s, Some ErrDriver)
      else (fst (update_status s NotificationStatusError i NotificationStatusInput), None))"
  by (simp add: MarkNotificationError_def case_prod_beta)

lemma MarkNotificationSent_ok:
  assumes "snd (MarkNotificationSent fails s i) = None"
  shows "fst (MarkNotificationSent fails s i) =
           fst (update_status s NotificationStatusSent i NotificationStatusInput)"
  using assms update_status_rows_0 [of s NotificationStatusSent i NotificationStatusInput]
  by (simp add: MarkNotificationSent_unfold split: if_split_asm)

lemma MarkNotificationError_ok:
  assumes "snd (MarkNotificationError fails s i) = None"
  shows "fst (MarkNotificationError fails s i) =
           fst (update_status s NotificationStatusError i NotificationStatusInput)"
  using assms update_status_rows_0 [of s NotificationStatusError i NotificationStatusInput]
  by (simp add: MarkNotificationError_unfold split: if_split_asm)

lemma MarkNotificationSent_error_state:
  assumes "snd (MarkNotificationSent fails s i) = Some err"
  shows "fst (MarkNotificationSent fails s i) = s"
  using assms by (simp add: MarkNotificationSent_unfold split: if_split_asm)

lemma MarkNotificationError_error_state:
  assumes "snd (MarkNotificationError fails s i) = Some err"
  shows "fst (MarkNotificationError fails s i) = s"
  using assms by (simp add: MarkNotificationError_unfold split: if_split_asm)

lemma MarkNotificationSent_noop:
  assumes "\<forall>r \<in> set (notifications s). notification_id r = i \<longrightarrow> status r \<noteq> NotificationStatusInput"
  shows "fst (MarkNotificationSent fails s i) = s"
    and "\<forall>c. (OpMarkNotificationSent, c) \<notin> fails \<Longrightarrow> snd (MarkNotificationSent fails s i) = None"
  by (simp_all add: MarkNotificationSent_unfold update_status_noop [OF assms])

lemma MarkNotificationError_noop:
  assumes "\<forall>r \<in> set (notifications s). notification_id r = i \<longrightarrow> status r \<noteq> NotificationStatusInput"
  shows "fst (MarkNotificationError fails s i) = s"
    and "\<forall>c. (OpMarkNotificationError, c) \<notin> fails \<Longrightarrow> snd (MarkNotificationError fails s i) = None"
  by (simp_all add: MarkNotificationError_unfold update_status_noop [OF assms])

lemma MarkNotificationSent_no_faults:
  assumes "\<forall>c. (OpMarkNotificationSent, c) \<notin> fails"
  shows "MarkNotificationSent fails s i =
           (fst (update_status s NotificationStatusSent i NotificationStatusInput), None)"
  using assms update_status_rows_0 [of s NotificationStatusSent i NotificationStatusInput]
  by (simp add: MarkNotificationSent_unfold)

lemma MarkNotificationError_no_faults:
  assumes "\<forall>c. (OpMarkNotificationError, c) \<notin> fails"
  shows "MarkNotificationError fails s i =
           (fst (update_status s NotificationStatusError i NotificationStatusInput), None)"
  using assms update_status_rows_0 [of s NotificationStatusError i NotificationStatusInput]
  by (simp add: MarkNotificationError_unfold)

lemma InsertDevice_error_state:
  assumes "snd (InsertDevice fails s d k) = Some err"
  shows "fst (InsertDevice fails s d k) = s"
  using assms
  by (simp add: InsertDevice_def split: option.split_asm sum.split_asm if_split_asm)

lemma InsertNotification_unfold:
  "InsertNotification fails s notif =
     (case validateNotification notif of
        Some err \<Rightarrow> (s, Inl err)
      | None \<Rightarrow>
          if (OpInsertNotification, BeginTx) \<in> fails
          then (s, Inl (Wrapped ''failed to begin transaction'' ErrDriver))
          else (case snd (GetOrCreateTopic fails s (Topic notif) []) of
                  Inl err \<Rightarrow>
                    (fst (GetOrCreateTopic fails s (Topic notif) []),
                     Inl (Wrapped ''failed to get or create topic'' err))
                | Inr topicID \<Rightarrow>
                    if (OpInsertNotification, Exec) \<in> fails
                    then (fst (GetOrCreateTopic fails s (Topic notif) []),
                          Inl (Wrapped ''failed to insert notification'' ErrDriver))
                    else if (OpInsertNotification, LastInsertId) \<in> fails
                    then (fst (GetOrCreateTopic fails s (Topic notif) []),
                          Inl (Wrapped ''failed to get notification ID'' ErrDriver))
                    else if (OpInsertNotification, Commit) \<in> fails
                    then (fst (GetOrCreateTopic fails s (Topic notif) []),
                          Inl (Wrapped ''failed to commit transaction'' ErrDriver))
                    else (fst (insert_notification (fst (GetOrCreateTopic fails s (Topic notif) []))
                                 topicID (Message notif) (Metadata notif)),
                          Inr (snd (insert_notification
                                 (fst (GetOrCreateTopic fails s (Topic notif) []))
                                 topicID (Message notif) (Metadata notif))))))"
proof -
  obtain s1 r where g: "GetOrCreateTopic fails s (Topic notif) [] = (s1, r)"
    by (cases "GetOrCreateTopic fails s (Topic notif) []")
  show ?thesis
  proof (cases r)
    case (Inl err)
    with g show ?thesis by (simp add: InsertNotification_def split: option.split)
  next
    case (Inr topicID)
    obtain tx k where i: "insert_notification s1 topicID (Message notif) (Metadata notif) = (tx, k)"
      by (cases "insert_notification s1 topicID (Message notif) (Metadata notif)")
    from g Inr i show ?thesis by (simp add: InsertNotification_def split: option.split)
  qed
qed

lemma InsertNotification_error_topic:
  assumes "snd (InsertNotification fails s notif) = Inl err"
  shows "fst (InsertNotification fails s notif) = s \<or>
         fst (InsertNotification fails s notif) = fst (GetOrCreateTopic fails s (Topic notif) [])"
proof (cases "snd (GetOrCreateTopic fails s (Topic notif) [])")
  case (Inl e)
  then show ?thesis
    by (simp add: InsertNotification_unfold split: option.split)
next
  case (Inr topicID)
  with assms show ?thesis
    by (simp add: InsertNotification_unfold insert_notification_def Let_def
          split: option.split_asm if_split_asm)
qed

lemma GetOrCreateTopic_created_state:
  assumes "snd (GetOrCreateTopic fails s name descr) = Inr topicID"
    and "name \<notin> set (map topic_name (topics s))"
  shows "fst (GetOrCreateTopic fails s name descr) =
     s\<lparr>topics := topics s @
          [\<lparr>topic_id = topics_seq s + 1, topic_name = name, description = descr\<rparr>],
        topics_seq := topics_seq s + 1\<rparr>"
proof -
  from assms(2) have sel: "select_topic_id s name = None" by (simp add: select_topic_id_None)
  from assms(1) show ?thesis
    by (simp add: GetOrCreateTopic_def sel insert_topic_new [OF assms(2)]
          split: option.split_asm if_split_asm)
qed

lemma InsertNotification_begin_fails:
  assumes "validateNotification notif = None" and "(OpInsertNotification, BeginTx) \<in> fails"
  shows "InsertNotification fails s notif =
           (s, Inl (Wrapped ''failed to begin transaction'' ErrDriver))"
  using assms by (simp add: InsertNotification_unfold)

lemma InsertNotification_topic_fails:
  assumes "validateNotification notif = None" and "(OpInsertNotification, BeginTx) \<notin> fails"
    and "snd (GetOrCreateTopic fails s (Topic notif) []) = Inl e"
  shows "InsertNotification fails s notif =
           (s, Inl (Wrapped ''failed to get or create topic'' e))"
  using assms GetOrCreateTopic_error_state [OF assms(3)]
  by (simp add: InsertNotification_unfold)

lemma InsertNotification_late_failure:
  assumes "validateNotification notif = None" and "(OpInsertNotification, BeginTx) \<notin> fails"
    and "snd (GetOrCreateTopic fails s (Topic notif) []) = Inr topicID"
    and "(OpInsertNotification, Exec) \<in> fails \<or> (OpInsertNotification, LastInsertId) \<in> fails \<or>
         (OpInsertNotification, Commit) \<in> fails"
  shows "fst (InsertNotification fails s notif) = fst (GetOrCreateTopic fails s (Topic notif) [])"
    and "\<exists>e. snd (InsertNotification fails s notif) = Inl (Wrapped e ErrDriver)"
  using assms by (auto simp: InsertNotification_unfold)

lemma topic_row_added_neq:
  "s\<lparr>topics := topics s @ [row], topics_seq := k\<rparr> \<noteq> s"
proof
  assume "s\<lparr>topics := topics s @ [row], topics_seq := k\<rparr> = s"
  then have "topics (s\<lparr>topics := topics s @ [row], topics_seq := k\<rparr>) = topics s" by simp
  then show False by simp
qed

text \<open>
  Claim C3. \<^verbatim>\<open>GetOrCreateTopic\<close> returns \<^verbatim>\<open>ErrEmptyTopic\<close> exactly when the name is the empty
  string and \<^verbatim>\<open>ErrTopicTooLong\<close> exactly when the name has more than 255 characters
  (\<^verbatim>\<open>len\<close>, the bytes of the string), whatever the database holds and whichever driver
  calls fail; a non-empty name of at most 255 characters passes the validation.
\<close>

theorem GetOrCreateTopic_validation:
  "(snd (GetOrCreateTopic fails s name descr) = Inl ErrEmptyTopic \<longleftrightarrow> name = []) \<and>
   (snd (GetOrCreateTopic fails s name descr) = Inl ErrTopicTooLong \<longleftrightarrow> 255 < length name) \<and>
   (validateTopic name = None \<longleftrightarrow> name \<noteq> [] \<and> length name \<le> 255)"
proof (cases "validateTopic name")
  case None
  then have "name \<noteq> [] \<and> length name \<le> 255"
    by (simp add: validateTopic_def MaxTopicNameLength_def split: if_split_asm)
  with None GetOrCreateTopic_valid_error [OF None, of fails s descr] show ?thesis
    by simp
next
  case (Some err)
  then have "snd (GetOrCreateTopic fails s name descr) = Inl err"
    by (simp add: GetOrCreateTopic_invalid)
  moreover from Some have "(err = ErrEmptyTopic \<longleftrightarrow> name = []) \<and>
      (err = ErrTopicTooLong \<longleftrightarrow> 255 < length name) \<and> \<not> (name \<noteq> [] \<and> length name \<le> 255)"
    by (auto simp: validateTopic_def MaxTopicNameLength_def split: if_split_asm)
  ultimately show ?thesis using Some by simp
qed

text \<open>The names of \<^verbatim>\<open>TestTopicCRUD\<close>: the empty name, a name of 256 bytes, and \<open>topic1\<close>.\<close>

theorem GetOrCreateTopic_validation_witness:
  "snd (GetOrCreateTopic {} empty_database [] ''description'') = Inl ErrEmptyTopic \<and>
   snd (GetOrCreateTopic {} empty_database (replicate 256 (CHR 0x00)) ''description'') =
     Inl ErrTopicTooLong \<and>
   validateTopic ''topic1'' = None"
  using GetOrCreateTopic_validation [of "{}" empty_database "[]" "''description''"]
    GetOrCreateTopic_validation [of "{}" empty_database "replicate 256 (CHR 0x00)" "''description''"]
    GetOrCreateTopic_validation [of "{}" empty_database "''topic1''" "''description''"]
  by simp

text \<open>
  Claim C7. In a database that satisfies the constraints of the schema, when no driver
  call fails, \<^verbatim>\<open>GetOrCreateTopic\<close> with a valid name that a topic row carries returns the
  key of that row and leaves the whole database as it was, the description of the row
  included; with a valid name that no row carries it appends one row, with the name
  and the description given and a key no row has, and returns this key.
\<close>

theorem GetOrCreateTopic_first_writer_wins:
  assumes "validateTopic name = None"
    and "\<forall>c. (OpGetOrCreateTopic, c) \<notin> fails"
    and "schema_ok s"
  shows "(\<forall>row \<in> set (topics s). topic_name row = name \<longrightarrow>
            GetOrCreateTopic fails s name descr = (s, Inr (topic_id row))) \<and>
         (name \<notin> set (map topic_name (topics s)) \<longrightarrow>
            GetOrCreateTopic fails s name descr =
              (s\<lparr>topics := topics s @
                   [\<lparr>topic_id = topics_seq s + 1, topic_name = name, description = descr\<rparr>],
                 topics_seq := topics_seq s + 1\<rparr>, Inr (topics_seq s + 1)) \<and>
            topics_seq s + 1 \<notin> set (map topic_id (topics s)))"
proof (intro conjI ballI impI)
  fix row
  assume "row \<in> set (topics s)" and "topic_name row = name"
  moreover from assms(3) have "distinct (map topic_name (topics s))"
    by (simp add: schema_ok_def)
  ultimately have "find (\<lambda>r. topic_name r = name) (topics s) = Some row"
    by (simp add: find_distinct_name)
  then have "select_topic_id s name = Some (topic_id row)"
    by (simp add: select_topic_id_def)
  with assms(1,2) show "GetOrCreateTopic fails s name descr = (s, Inr (topic_id row))"
    by (simp add: GetOrCreateTopic_found)
next
  assume "name \<notin> set (map topic_name (topics s))"
  with assms(1,2) show "GetOrCreateTopic fails s name descr =
              (s\<lparr>topics := topics s @
                   [\<lparr>topic_id = topics_seq s + 1, topic_name = name, description = descr\<rparr>],
                 topics_seq := topics_seq s + 1\<rparr>, Inr (topics_seq s + 1))"
    by (rule GetOrCreateTopic_created)
next
  from assms(3) have "\<forall>r \<in> set (topics s). topic_id r \<le> topics_seq s"
    by (simp add: schema_ok_def list_all_iff)
  then have "\<forall>k \<in> set (map topic_id (topics s)). k \<le> topics_seq s"
    by simp
  then show "topics_seq s + 1 \<notin> set (map topic_id (topics s))"
    by fastforce
qed

text \<open>
  The calls of \<^verbatim>\<open>TestTopicCRUD\<close> on a database that holds \<open>topic2\<close>: the repeated call with
  another description returns the key 1 and changes nothing, and a call with the new
  name \<open>topic3\<close> appends a row with the key 2.
\<close>

theorem GetOrCreateTopic_first_writer_wins_witness:
  "GetOrCreateTopic {}
     \<lparr>devices = [], topics = [\<lparr>topic_id = 1, topic_name = ''topic2'', description = ''description2''\<rparr>],
      notifications = [], topics_seq = 1, notifications_seq = 0\<rparr>
     ''topic2'' ''different description'' =
   (\<lparr>devices = [], topics = [\<lparr>topic_id = 1, topic_name = ''topic2'', description = ''description2''\<rparr>],
      notifications = [], topics_seq = 1, notifications_seq = 0\<rparr>, Inr 1) \<and>
   GetOrCreateTopic {}
     \<lparr>devices = [], topics = [\<lparr>topic_id = 1, topic_name = ''topic2'', description = ''description2''\<rparr>],
      notifications = [], topics_seq = 1, notifications_seq = 0\<rparr>
     ''topic3'' ''description3'' =
   (\<lparr>devices = [],
      topics = [\<lparr>topic_id = 1, topic_name = ''topic2'', description = ''description2''\<rparr>,
                \<lparr>topic_id = 2, topic_name = ''topic3'', description = ''description3''\<rparr>],
      notifications = [], topics_seq = 2, notifications_seq = 0\<rparr>, Inr 2)"
proof -
  let ?s = "\<lparr>devices = [], topics = [\<lparr>topic_id = 1, topic_name = ''topic2'', description = ''description2''\<rparr>],
      notifications = [], topics_seq = 1, notifications_seq = 0\<rparr>"
  have ok: "schema_ok ?s" by (simp add: schema_ok_def)
  have nf: "\<forall>c. (OpGetOrCreateTopic, c) \<notin> {}" by simp
  have v2: "validateTopic ''topic2'' = None" and v3: "validateTopic ''topic3'' = None"
    by (simp_all add: validateTopic_def MaxTopicNameLength_def)
  from GetOrCreateTopic_first_writer_wins [OF v2 nf ok, of "''different description''"]
  have "GetOrCreateTopic {} ?s ''topic2'' ''different description'' = (?s, Inr 1)"
    by simp
  moreover from GetOrCreateTopic_first_writer_wins [OF v3 nf ok, of "''description3''"]
  have "GetOrCreateTopic {} ?s ''topic3'' ''description3'' =
    (\<lparr>devices = [],
      topics = [\<lparr>topic_id = 1, topic_name = ''topic2'', description = ''description2''\<rparr>,
                \<lparr>topic_id = 2, topic_name = ''topic3'', description = ''description3''\<rparr>],
      notifications = [], topics_seq = 2, notifications_seq = 0\<rparr>, Inr 2)"
    by simp
  ultimately show ?thesis by simp
qed

text \<open>
  Claim C1. \<^verbatim>\<open>MarkNotificationSent\<close> and \<^verbatim>\<open>MarkNotificationError\<close> change the status of the
  rows with the given key that are in \<^verbatim>\<open>INPUT\<close>, and nothing else. When no row with the
  key is in \<^verbatim>\<open>INPUT\<close> (the row is \<^verbatim>\<open>SENT\<close> or \<^verbatim>\<open>ERROR\<close>, or there is no such row) the
  database is left as it was, whichever driver calls fail, and the method returns no
  error unless a driver call fails. After either mark has returned without error,
  either mark applied again leaves the database as it is.
\<close>

theorem MarkNotification_idempotent:
  "((\<forall>c. (OpMarkNotificationSent, c) \<notin> fails) \<longrightarrow>
      MarkNotificationSent fails s i =
        (s\<lparr>notifications :=
             map (\<lambda>r. if notification_id r = i \<and> status r = NotificationStatusInput
                       then r\<lparr>status := NotificationStatusSent\<rparr> else r) (notifications s)\<rparr>,
         None)) \<and>
   ((\<forall>c. (OpMarkNotificationError, c) \<notin> fails) \<longrightarrow>
      MarkNotificationError fails s i =
        (s\<lparr>notifications :=
             map (\<lambda>r. if notification_id r = i \<and> status r = NotificationStatusInput
                       then r\<lparr>status := NotificationStatusError\<rparr> else r) (notifications s)\<rparr>,
         None)) \<and>
   ((\<forall>r \<in> set (notifications s). notification_id r = i \<longrightarrow> status r \<noteq> NotificationStatusInput) \<longrightarrow>
      fst (MarkNotificationSent fails s i) = s \<and>
      fst (MarkNotificationError fails s i) = s \<and>
      ((\<forall>c. (OpMarkNotificationSent, c) \<notin> fails) \<longrightarrow> snd (MarkNotificationSent fails s i) = None) \<and>
      ((\<forall>c. (OpMarkNotificationError, c) \<notin> fails) \<longrightarrow> snd (MarkNotificationError fails s i) = None)) \<and>
   (snd (MarkNotificationSent fails s i) = None \<longrightarrow>
      fst (MarkNotificationSent fails' (fst (MarkNotificationSent fails s i)) i) =
        fst (MarkNotificationSent fails s i) \<and>
      fst (MarkNotificationError fails' (fst (MarkNotificationSent fails s i)) i) =
        fst (MarkNotificationSent fails s i)) \<and>
   (snd (MarkNotificationError fails s i) = None \<longrightarrow>
      fst (MarkNotificationError fails' (fst (MarkNotificationError fails s i)) i) =
        fst (MarkNotificationError fails s i) \<and>
      fst (MarkNotificationSent fails' (fst (MarkNotificationError fails s i)) i) =
        fst (MarkNotificationError fails s i))"
proof (intro conjI impI)
  assume nf: "\<forall>c. (OpMarkNotificationSent, c) \<notin> fails"
  show "MarkNotificationSent fails s i =
        (s\<lparr>notifications :=
             map (\<lambda>r. if notification_id r = i \<and> status r = NotificationStatusInput
                       then r\<lparr>status := NotificationStatusSent\<rparr> else r) (notifications s)\<rparr>,
         None)"
    by (simp only: MarkNotificationSent_no_faults [OF nf] update_status_fst)
next
  assume nf: "\<forall>c. (OpMarkNotificationError, c) \<notin> fails"
  show "MarkNotificationError fails s i =
        (s\<lparr>notifications :=
             map (\<lambda>r. if notification_id r = i \<and> status r = NotificationStatusInput
                       then r\<lparr>status := NotificationStatusError\<rparr> else r) (notifications s)\<rparr>,
         None)"
    by (simp only: MarkNotificationError_no_faults [OF nf] update_status_fst)
next
  assume h: "\<forall>r \<in> set (notifications s). notification_id r = i \<longrightarrow> status r \<noteq> NotificationStatusInput"
  show "fst (MarkNotificationSent fails s i) = s"
    by (rule MarkNotificationSent_noop(1) [OF h])
  show "fst (MarkNotificationError fails s i) = s"
    by (rule MarkNotificationError_noop(1) [OF h])
  show "snd (MarkNotificationSent fails s i) = None" if "\<forall>c. (OpMarkNotificationSent, c) \<notin> fails"
    by (rule MarkNotificationSent_noop(2) [OF h that])
  show "snd (MarkNotificationError fails s i) = None" if "\<forall>c. (OpMarkNotificationError, c) \<notin> fails"
    by (rule MarkNotificationError_noop(2) [OF h that])
next
  assume "snd (MarkNotificationSent fails s i) = None"
  then have eq: "fst (MarkNotificationSent fails s i) =
      fst (update_status s NotificationStatusSent i NotificationStatusInput)"
    by (rule MarkNotificationSent_ok)
  have h: "\<forall>r \<in> set (notifications (fst (MarkNotificationSent fails s i))).
      notification_id r = i \<longrightarrow> status r \<noteq> NotificationStatusInput"
    unfolding eq by (rule update_status_done) simp
  show "fst (MarkNotificationSent fails' (fst (MarkNotificationSent fails s i)) i) =
        fst (MarkNotificationSent fails s i)"
    by (rule MarkNotificationSent_noop(1) [OF h])
  show "fst (MarkNotificationError fails' (fst (MarkNotificationSent fails s i)) i) =
        fst (MarkNotificationSent fails s i)"
    by (rule MarkNotificationError_noop(1) [OF h])
next
  assume "snd (MarkNotificationError fails s i) = None"
  then have eq: "fst (MarkNotificationError fails s i) =
      fst (update_status s NotificationStatusError i NotificationStatusInput)"
    by (rule MarkNotificationError_ok)
  have h: "\<forall>r \<in> set (notifications (fst (MarkNotificationError fails s i))).
      notification_id r = i \<longrightarrow> status r \<noteq> NotificationStatusInput"
    unfolding eq by (rule update_status_done) simp
  show "fst (MarkNotificationError fails' (fst (MarkNotificationError fails s i)) i) =
        fst (MarkNotificationError fails s i)"
    by (rule MarkNotificationError_noop(1) [OF h])
  show "fst (MarkNotificationSent fails' (fst (MarkNotificationError fails s i)) i) =
        fst (MarkNotificationError fails s i)"
    by (rule MarkNotificationSent_noop(1) [OF h])
qed

text \<open>
  The steps of \<^verbatim>\<open>TestNotificationStatus\<close> on a database with the notification 1 in
  \<^verbatim>\<open>INPUT\<close>: the first mark sets \<^verbatim>\<open>SENT\<close>; marking it as sent again, marking it as an error
  and marking the unknown key 99999 all return no error and change nothing.
\<close>

theorem MarkNotification_idempotent_witness:
  "MarkNotificationSent {}
     \<lparr>devices = [], topics = [\<lparr>topic_id = 1, topic_name = ''status_test'', description = []\<rparr>],
      notifications = [\<lparr>notification_id = 1, notification_topic = 1, message = ''Test message'',
                        metadata = None, status = NotificationStatusInput\<rparr>],
      topics_seq = 1, notifications_seq = 1\<rparr> 1 =
   (\<lparr>devices = [], topics = [\<lparr>topic_id = 1, topic_name = ''status_test'', description = []\<rparr>],
      notifications = [\<lparr>notification_id = 1, notification_topic = 1, message = ''Test message'',
                        metadata = None, status = NotificationStatusSent\<rparr>],
      topics_seq = 1, notifications_seq = 1\<rparr>, None) \<and>
   MarkNotificationSent {}
     \<lparr>devices = [], topics = [\<lparr>topic_id = 1, topic_name = ''status_test'', description = []\<rparr>],
      notifications = [\<lparr>notification_id = 1, notification_topic = 1, message = ''Test message'',
                        metadata = None, status = NotificationStatusSent\<rparr>],
      topics_seq = 1, notifications_seq = 1\<rparr> 1 =
   (\<lparr>devices = [], topics = [\<lparr>topic_id = 1, topic_name = ''status_test'', description = []\<rparr>],
      notifications = [\<lparr>notification_id = 1, notification_topic = 1, message = ''Test message'',
                        metadata = None, status = NotificationStatusSent\<rparr>],
      topics_seq = 1, notifications_seq = 1\<rparr>, None) \<and>
   MarkNotificationError {}
     \<lparr>devices = [], topics = [\<lparr>topic_id = 1, topic_name = ''status_test'', description = []\<rparr>],
      notifications = [\<lparr>notification_id = 1, notification_topic = 1, message = ''Test message'',
                        metadata = None, status = NotificationStatusSent\<rparr>],
      topics_seq = 1, notifications_seq = 1\<rparr> 1 =
   (\<lparr>devices = [], topics = [\<lparr>topic_id = 1, topic_name = ''status_test'', description = []\<rparr>],
      notifications = [\<lparr>notification_id = 1, notification_topic = 1, message = ''Test message'',
                        metadata = None, status = NotificationStatusSent\<rparr>],
      topics_seq = 1, notifications_seq = 1\<rparr>, None) \<and>
   MarkNotificationSent {}
     \<lparr>devices = [], topics = [\<lparr>topic_id = 1, topic_name = ''status_test'', description = []\<rparr>],
      notifications = [\<lparr>notification_id = 1, notification_topic = 1, message = ''Test message'',
                        metadata = None, status = NotificationStatusSent\<rparr>],
      topics_seq = 1, notifications_seq = 1\<rparr> 99999 =
   (\<lparr>devices = [], topics = [\<lparr>topic_id = 1, topic_name = ''status_test'', description = []\<rparr>],
      notifications = [\<lparr>notification_id = 1, notification_topic = 1, message = ''Test message'',
                        metadata = None, status = NotificationStatusSent\<rparr>],
      topics_seq = 1, notifications_seq = 1\<rparr>, None)"
proof -
  let ?t = "[\<lparr>topic_id = 1, topic_name = ''status_test'', description = []\<rparr>]"
  let ?s0 = "\<lparr>devices = [], topics = ?t,
      notifications = [\<lparr>notification_id = 1, notification_topic = 1, message = ''Test message'',
                        metadata = None, status = NotificationStatusInput\<rparr>],
      topics_seq = 1, notifications_seq = 1\<rparr>"
  let ?s1 = "\<lparr>devices = [], topics = ?t,
      notifications = [\<lparr>notification_id = 1, notification_topic = 1, message = ''Test message'',
                        metadata = None, status = NotificationStatusSent\<rparr>],
      topics_seq = 1, notifications_seq = 1\<rparr>"
  have first: "MarkNotificationSent {} ?s0 1 = (?s1, None)"
    using MarkNotification_idempotent [of "{}" ?s0 1 "{}"] by simp
  have "MarkNotificationSent {} ?s1 1 = (?s1, None)"
    using MarkNotification_idempotent [of "{}" ?s1 1 "{}"] by simp
  moreover have "MarkNotificationError {} ?s1 1 = (?s1, None)"
    using MarkNotification_idempotent [of "{}" ?s1 1 "{}"] by simp
  moreover have "MarkNotificationSent {} ?s1 99999 = (?s1, None)"
    using MarkNotification_idempotent [of "{}" ?s1 99999 "{}"] by simp
  ultimately show ?thesis using first by simp
qed

text \<open>
  Claim C4, as amended. A method that returns an error leaves no row of its own
  transaction: \<^verbatim>\<open>GetOrCreateTopic\<close>, \<^verbatim>\<open>InsertDevice\<close>, \<^verbatim>\<open>MarkNotificationSent\<close> and
  \<^verbatim>\<open>MarkNotificationError\<close> leave the database exactly as it was. \<^verbatim>\<open>InsertNotification\<close>
  leaves it exactly as it was when the validation fails, when its transaction cannot
  begin and when the call of \<^verbatim>\<open>GetOrCreateTopic\<close> inside returns an error. When a later
  call fails (the \<^verbatim>\<open>INSERT\<close> of the notification, \<^verbatim>\<open>LastInsertId\<close> or \<^verbatim>\<open>Commit\<close>), no
  notification row remains and the counter of the notifications is unchanged; if the
  topic existed the database is exactly as it was, and if the topic was new the
  database is as it was with one more topic row, the row of the notification's topic,
  which \<^verbatim>\<open>GetOrCreateTopic\<close> has committed in a transaction of its own and which remains.
\<close>

theorem InsertNotification_error_state:
  "(snd (InsertNotification fails s notif) = Inl err \<longrightarrow>
      notifications (fst (InsertNotification fails s notif)) = notifications s \<and>
      notifications_seq (fst (InsertNotification fails s notif)) = notifications_seq s \<and>
      devices (fst (InsertNotification fails s notif)) = devices s \<and>
      (fst (InsertNotification fails s notif) = s \<or>
       Topic notif \<notin> set (map topic_name (topics s)) \<and>
       fst (InsertNotification fails s notif) =
         s\<lparr>topics := topics s @
              [\<lparr>topic_id = topics_seq s + 1, topic_name = Topic notif, description = []\<rparr>],
            topics_seq := topics_seq s + 1\<rparr>)) \<and>
   (validateNotification notif = Some err \<longrightarrow> InsertNotification fails s notif = (s, Inl err)) \<and>
   (validateNotification notif = None \<and> (OpInsertNotification, BeginTx) \<in> fails \<longrightarrow>
      InsertNotification fails s notif =
        (s, Inl (Wrapped ''failed to begin transaction'' ErrDriver))) \<and>
   (validateNotification notif = None \<and> (OpInsertNotification, BeginTx) \<notin> fails \<and>
    snd (GetOrCreateTopic fails s (Topic notif) []) = Inl e \<longrightarrow>
      InsertNotification fails s notif =
        (s, Inl (Wrapped ''failed to get or create topic'' e))) \<and>
   (validateNotification notif = None \<and> (OpInsertNotification, BeginTx) \<notin> fails \<and>
    snd (GetOrCreateTopic fails s (Topic notif) []) = Inr topicID \<and>
    Topic notif \<in> set (map topic_name (topics s)) \<and>
    ((OpInsertNotification, Exec) \<in> fails \<or> (OpInsertNotification, LastInsertId) \<in> fails \<or>
       (OpInsertNotification, Commit) \<in> fails) \<longrightarrow>
      InsertNotification fails s notif =
        (s, Inl (Wrapped (if (OpInsertNotification, Exec) \<in> fails then ''failed to insert notification''
                 else if (OpInsertNotification, LastInsertId) \<in> fails
                 then ''failed to get notification ID''
                 else ''failed to commit transaction'') ErrDriver))) \<and>
   (validateNotification notif = None \<and> (OpInsertNotification, BeginTx) \<notin> fails \<and>
    snd (GetOrCreateTopic fails s (Topic notif) []) = Inr topicID \<and>
    Topic notif \<notin> set (map topic_name (topics s)) \<and>
    ((OpInsertNotification, Exec) \<in> fails \<or> (OpInsertNotification, LastInsertId) \<in> fails \<or>
       (OpInsertNotification, Commit) \<in> fails) \<longrightarrow>
      InsertNotification fails s notif =
        (s\<lparr>topics := topics s @
              [\<lparr>topic_id = topics_seq s + 1, topic_name = Topic notif, description = []\<rparr>],
            topics_seq := topics_seq s + 1\<rparr>,
         Inl (Wrapped (if (OpInsertNotification, Exec) \<in> fails then ''failed to insert notification''
                 else if (OpInsertNotification, LastInsertId) \<in> fails
                 then ''failed to get notification ID''
                 else ''failed to commit transaction'') ErrDriver)) \<and>
      fst (InsertNotification fails s notif) \<noteq> s) \<and>
   (snd (GetOrCreateTopic fails s name descr) = Inl err \<longrightarrow>
      fst (GetOrCreateTopic fails s name descr) = s) \<and>
   (snd (InsertDevice fails s deviceID publicKey) = Some err \<longrightarrow>
      fst (InsertDevice fails s deviceID publicKey) = s) \<and>
   (snd (MarkNotificationSent fails s i) = Some err \<longrightarrow>
      fst (MarkNotificationSent fails s i) = s) \<and>
   (snd (MarkNotificationError fails s i) = Some err \<longrightarrow>
      fst (MarkNotificationError fails s i) = s)"
proof -
  have c1: "snd (InsertNotification fails s notif) = Inl err \<longrightarrow>
      notifications (fst (InsertNotification fails s notif)) = notifications s \<and>
      notifications_seq (fst (InsertNotification fails s notif)) = notifications_seq s \<and>
      devices (fst (InsertNotification fails s notif)) = devices s \<and>
      (fst (InsertNotification fails s notif) = s \<or>
       Topic notif \<notin> set (map topic_name (topics s)) \<and>
       fst (InsertNotification fails s notif) =
         s\<lparr>topics := topics s @
              [\<lparr>topic_id = topics_seq s + 1, topic_name = Topic notif, description = []\<rparr>],
            topics_seq := topics_seq s + 1\<rparr>)"
  proof (intro impI)
    assume e: "snd (InsertNotification fails s notif) = Inl err"
    let ?s' = "fst (InsertNotification fails s notif)"
    let ?t = "s\<lparr>topics := topics s @
              [\<lparr>topic_id = topics_seq s + 1, topic_name = Topic notif, description = []\<rparr>],
            topics_seq := topics_seq s + 1\<rparr>"
    have c: "?s' = s \<or> Topic notif \<notin> set (map topic_name (topics s)) \<and> ?s' = ?t"
      using InsertNotification_error_topic [OF e]
        GetOrCreateTopic_state [of fails s "Topic notif" "[]"]
      by metis
    have n: "notifications ?s' = notifications s"
      using c
    proof
      assume "?s' = s" then show ?thesis by simp
    next
      assume "Topic notif \<notin> set (map topic_name (topics s)) \<and> ?s' = ?t"
      then have "notifications ?s' = notifications ?t" by simp
      then show ?thesis by simp
    qed
    have q: "notifications_seq ?s' = notifications_seq s"
      using c
    proof
      assume "?s' = s" then show ?thesis by simp
    next
      assume "Topic notif \<notin> set (map topic_name (topics s)) \<and> ?s' = ?t"
      then have "notifications_seq ?s' = notifications_seq ?t" by simp
      then show ?thesis by simp
    qed
    have d: "devices ?s' = devices s"
      using c
    proof
      assume "?s' = s" then show ?thesis by simp
    next
      assume "Topic notif \<notin> set (map topic_name (topics s)) \<and> ?s' = ?t"
      then have "devices ?s' = devices ?t" by simp
      then show ?thesis by simp
    qed
    from n q d c show "notifications ?s' = notifications s \<and>
      notifications_seq ?s' = notifications_seq s \<and> devices ?s' = devices s \<and>
      (?s' = s \<or> Topic notif \<notin> set (map topic_name (topics s)) \<and> ?s' = ?t)"
      by (intro conjI)
  qed
  have c2: "validateNotification notif = Some err \<longrightarrow> InsertNotification fails s notif = (s, Inl err)"
    by (simp add: InsertNotification_def)
  have c3: "validateNotification notif = None \<and> (OpInsertNotification, BeginTx) \<in> fails \<longrightarrow>
      InsertNotification fails s notif =
        (s, Inl (Wrapped ''failed to begin transaction'' ErrDriver))"
    by (simp add: InsertNotification_begin_fails)
  have c4: "validateNotification notif = None \<and> (OpInsertNotification, BeginTx) \<notin> fails \<and>
    snd (GetOrCreateTopic fails s (Topic notif) []) = Inl e \<longrightarrow>
      InsertNotification fails s notif =
        (s, Inl (Wrapped ''failed to get or create topic'' e))"
    by (simp add: InsertNotification_topic_fails)
  have c5: "validateNotification notif = None \<and> (OpInsertNotification, BeginTx) \<notin> fails \<and>
    snd (GetOrCreateTopic fails s (Topic notif) []) = Inr topicID \<and>
    Topic notif \<in> set (map topic_name (topics s)) \<and>
    ((OpInsertNotification, Exec) \<in> fails \<or> (OpInsertNotification, LastInsertId) \<in> fails \<or>
       (OpInsertNotification, Commit) \<in> fails) \<longrightarrow>
      InsertNotification fails s notif =
        (s, Inl (Wrapped (if (OpInsertNotification, Exec) \<in> fails then ''failed to insert notification''
                 else if (OpInsertNotification, LastInsertId) \<in> fails
                 then ''failed to get notification ID''
                 else ''failed to commit transaction'') ErrDriver))"
  proof (intro impI)
    assume h: "validateNotification notif = None \<and> (OpInsertNotification, BeginTx) \<notin> fails \<and>
      snd (GetOrCreateTopic fails s (Topic notif) []) = Inr topicID \<and>
      Topic notif \<in> set (map topic_name (topics s)) \<and>
      ((OpInsertNotification, Exec) \<in> fails \<or> (OpInsertNotification, LastInsertId) \<in> fails \<or>
       (OpInsertNotification, Commit) \<in> fails)"
    then have "fst (GetOrCreateTopic fails s (Topic notif) []) = s"
      using GetOrCreateTopic_state [of fails s "Topic notif" "[]"] by blast
    with h show "InsertNotification fails s notif =
        (s, Inl (Wrapped (if (OpInsertNotification, Exec) \<in> fails then ''failed to insert notification''
                 else if (OpInsertNotification, LastInsertId) \<in> fails
                 then ''failed to get notification ID''
                 else ''failed to commit transaction'') ErrDriver))"
      by (auto simp: InsertNotification_unfold)
  qed
  have c6: "validateNotification notif = None \<and> (OpInsertNotification, BeginTx) \<notin> fails \<and>
    snd (GetOrCreateTopic fails s (Topic notif) []) = Inr topicID \<and>
    Topic notif \<notin> set (map topic_name (topics s)) \<and>
    ((OpInsertNotification, Exec) \<in> fails \<or> (OpInsertNotification, LastInsertId) \<in> fails \<or>
       (OpInsertNotification, Commit) \<in> fails) \<longrightarrow>
      InsertNotification fails s notif =
        (s\<lparr>topics := topics s @
              [\<lparr>topic_id = topics_seq s + 1, topic_name = Topic notif, description = []\<rparr>],
            topics_seq := topics_seq s + 1\<rparr>,
         Inl (Wrapped (if (OpInsertNotification, Exec) \<in> fails then ''failed to insert notification''
                 else if (OpInsertNotification, LastInsertId) \<in> fails
                 then ''failed to get notification ID''
                 else ''failed to commit transaction'') ErrDriver)) \<and>
      fst (InsertNotification fails s notif) \<noteq> s"
  proof (intro impI)
    assume h: "validateNotification notif = None \<and> (OpInsertNotification, BeginTx) \<notin> fails \<and>
      snd (GetOrCreateTopic fails s (Topic notif) []) = Inr topicID \<and>
      Topic notif \<notin> set (map topic_name (topics s)) \<and>
      ((OpInsertNotification, Exec) \<in> fails \<or> (OpInsertNotification, LastInsertId) \<in> fails \<or>
       (OpInsertNotification, Commit) \<in> fails)"
    then have g: "fst (GetOrCreateTopic fails s (Topic notif) []) =
        s\<lparr>topics := topics s @
              [\<lparr>topic_id = topics_seq s + 1, topic_name = Topic notif, description = []\<rparr>],
            topics_seq := topics_seq s + 1\<rparr>"
      by (simp add: GetOrCreateTopic_created_state)
    from h have r: "InsertNotification fails s notif =
        (fst (GetOrCreateTopic fails s (Topic notif) []),
         Inl (Wrapped (if (OpInsertNotification, Exec) \<in> fails then ''failed to insert notification''
                 else if (OpInsertNotification, LastInsertId) \<in> fails
                 then ''failed to get notification ID''
                 else ''failed to commit transaction'') ErrDriver))"
      by (auto simp: InsertNotification_unfold)
    have "s\<lparr>topics := topics s @
              [\<lparr>topic_id = topics_seq s + 1, topic_name = Topic notif, description = []\<rparr>],
            topics_seq := topics_seq s + 1\<rparr> \<noteq> s"
      by (rule topic_row_added_neq)
    with r g show "InsertNotification fails s notif =
        (s\<lparr>topics := topics s @
              [\<lparr>topic_id = topics_seq s + 1, topic_name = Topic notif, description = []\<rparr>],
            topics_seq := topics_seq s + 1\<rparr>,
         Inl (Wrapped (if (OpInsertNotification, Exec) \<in> fails then ''failed to insert notification''
                 else if (OpInsertNotification, LastInsertId) \<in> fails
                 then ''failed to get notification ID''
                 else ''failed to commit transaction'') ErrDriver)) \<and>
      fst (InsertNotification fails s notif) \<noteq> s"
      by simp
  qed
  have c7: "snd (GetOrCreateTopic fails s name descr) = Inl err \<longrightarrow>
      fst (GetOrCreateTopic fails s name descr) = s"
    by (simp add: GetOrCreateTopic_error_state)
  have c8: "snd (InsertDevice fails s deviceID publicKey) = Some err \<longrightarrow>
      fst (InsertDevice fails s deviceID publicKey) = s"
    by (simp add: InsertDevice_error_state)
  have c9: "snd (MarkNotificationSent fails s i) = Some err \<longrightarrow>
      fst (MarkNotificationSent fails s i) = s"
    by (simp add: MarkNotificationSent_error_state)
  have c10: "snd (MarkNotificationError fails s i) = Some err \<longrightarrow>
      fst (MarkNotificationError fails s i) = s"
    by (simp add: MarkNotificationError_error_state)
  show ?thesis
    by (intro conjI c1 c2 c3 c4 c5 c6 c7 c8 c9 c10)
qed

text \<open>
  The theorem on a database that holds the topic \<open>status_test\<close> and one notification.
  A notification with an empty message, a transaction of \<^verbatim>\<open>InsertNotification\<close> that
  cannot begin and a failing \<^verbatim>\<open>INSERT\<close> of the topic all leave the database as it was.
  A failing \<^verbatim>\<open>Commit\<close> of the notification leaves it as it was when the topic exists,
  and leaves the row of \<open>new_topic\<close>, with the key 2, when the topic is new.
\<close>

theorem InsertNotification_error_state_witness:
  "InsertNotification {}
     \<lparr>devices = [],
      topics = [\<lparr>topic_id = 1, topic_name = ''status_test'', description = []\<rparr>],
      notifications = [\<lparr>notification_id = 1, notification_topic = 1, message = ''Test message'',
                        metadata = None, status = NotificationStatusInput\<rparr>],
      topics_seq = 1, notifications_seq = 1\<rparr>
     \<lparr>Topic = ''new_topic'', Metadata = None, Message = []\<rparr> =
   (\<lparr>devices = [],
      topics = [\<lparr>topic_id = 1, topic_name = ''status_test'', description = []\<rparr>],
      notifications = [\<lparr>notification_id = 1, notification_topic = 1, message = ''Test message'',
                        metadata = None, status = NotificationStatusInput\<rparr>],
      topics_seq = 1, notifications_seq = 1\<rparr>, Inl ErrEmptyMessage) \<and>
   InsertNotification {(OpInsertNotification, BeginTx)}
     \<lparr>devices = [],
      topics = [\<lparr>topic_id = 1, topic_name = ''status_test'', description = []\<rparr>],
      notifications = [\<lparr>notification_id = 1, notification_topic = 1, message = ''Test message'',
                        metadata = None, status = NotificationStatusInput\<rparr>],
      topics_seq = 1, notifications_seq = 1\<rparr>
     \<lparr>Topic = ''new_topic'', Metadata = None, Message = ''Test message''\<rparr> =
   (\<lparr>devices = [],
      topics = [\<lparr>topic_id = 1, topic_name = ''status_test'', description = []\<rparr>],
      notifications = [\<lparr>notification_id = 1, notification_topic = 1, message = ''Test message'',
                        metadata = None, status = NotificationStatusInput\<rparr>],
      topics_seq = 1, notifications_seq = 1\<rparr>, Inl (Wrapped ''failed to begin transaction'' ErrDriver)) \<and>
   InsertNotification {(OpGetOrCreateTopic, Exec)}
     \<lparr>devices = [],
      topics = [\<lparr>topic_id = 1, topic_name = ''status_test'', description = []\<rparr>],
      notifications = [\<lparr>notification_id = 1, notification_topic = 1, message = ''Test message'',
                        metadata = None, status = NotificationStatusInput\<rparr>],
      topics_seq = 1, notifications_seq = 1\<rparr>
     \<lparr>Topic = ''new_topic'', Metadata = None, Message = ''Test message''\<rparr> =
   (\<lparr>devices = [],
      topics = [\<lparr>topic_id = 1, topic_name = ''status_test'', description = []\<rparr>],
      notifications = [\<lparr>notification_id = 1, notification_topic = 1, message = ''Test message'',
                        metadata = None, status = NotificationStatusInput\<rparr>],
      topics_seq = 1, notifications_seq = 1\<rparr>,
    Inl (Wrapped ''failed to get or create topic'' (Wrapped ''failed to insert topic'' ErrDriver))) \<and>
   InsertNotification {(OpInsertNotification, Commit)}
     \<lparr>devices = [],
      topics = [\<lparr>topic_id = 1, topic_name = ''status_test'', description = []\<rparr>],
      notifications = [\<lparr>notification_id = 1, notification_topic = 1, message = ''Test message'',
                        metadata = None, status = NotificationStatusInput\<rparr>],
      topics_seq = 1, notifications_seq = 1\<rparr>
     \<lparr>Topic = ''status_test'', Metadata = None, Message = ''Test message''\<rparr> =
   (\<lparr>devices = [],
      topics = [\<lparr>topic_id = 1, topic_name = ''status_test'', description = []\<rparr>],
      notifications = [\<lparr>notification_id = 1, notification_topic = 1, message = ''Test message'',
                        metadata = None, status = NotificationStatusInput\<rparr>],
      topics_seq = 1, notifications_seq = 1\<rparr>, Inl (Wrapped ''failed to commit transaction'' ErrDriver)) \<and>
   InsertNotification {(OpInsertNotification, Commit)}
     \<lparr>devices = [],
      topics = [\<lparr>topic_id = 1, topic_name = ''status_test'', description = []\<rparr>],
      notifications = [\<lparr>notification_id = 1, notification_topic = 1, message = ''Test message'',
                        metadata = None, status = NotificationStatusInput\<rparr>],
      topics_seq = 1, notifications_seq = 1\<rparr>
     \<lparr>Topic = ''new_topic'', Metadata = None, Message = ''Test message''\<rparr> =
   (\<lparr>devices = [],
      topics = [\<lparr>topic_id = 1, topic_name = ''status_test'', description = []\<rparr>,
                \<lparr>topic_id = 2, topic_name = ''new_topic'', description = []\<rparr>],
      notifications = [\<lparr>notification_id = 1, notification_topic = 1, message = ''Test message'',
                        metadata = None, status = NotificationStatusInput\<rparr>],
      topics_seq = 2, notifications_seq = 1\<rparr>, Inl (Wrapped ''failed to commit transaction'' ErrDriver))"
proof -
  let ?s = "\<lparr>devices = [],
      topics = [\<lparr>topic_id = 1, topic_name = ''status_test'', description = []\<rparr>],
      notifications = [\<lparr>notification_id = 1, notification_topic = 1, message = ''Test message'',
                        metadata = None, status = NotificationStatusInput\<rparr>],
      topics_seq = 1, notifications_seq = 1\<rparr>"
  let ?bad = "\<lparr>Topic = ''new_topic'', Metadata = None, Message = []\<rparr>"
  let ?new = "\<lparr>Topic = ''new_topic'', Metadata = None, Message = ''Test message''\<rparr>"
  let ?old = "\<lparr>Topic = ''status_test'', Metadata = None, Message = ''Test message''\<rparr>"
  have vb: "validateNotification ?bad = Some ErrEmptyMessage"
    and vn: "validateNotification ?new = None"
    and vo: "validateNotification ?old = None"
    by (simp_all add: validateNotification_def validateTopic_def MaxTopicNameLength_def)
  have w1: "InsertNotification {} ?s ?bad = (?s, Inl ErrEmptyMessage)"
    using InsertNotification_error_state
      [where fails = "{}" and s = ?s and notif = ?bad and err = ErrEmptyMessage,
        THEN conjunct2, THEN conjunct1] vb
    by simp
  have w2: "InsertNotification {(OpInsertNotification, BeginTx)} ?s ?new =
      (?s, Inl (Wrapped ''failed to begin transaction'' ErrDriver))"
    using InsertNotification_error_state
      [where fails = "{(OpInsertNotification, BeginTx)}" and s = ?s and notif = ?new,
        THEN conjunct2, THEN conjunct2, THEN conjunct1] vn
    by simp
  have g3: "snd (GetOrCreateTopic {(OpGetOrCreateTopic, Exec)} ?s ''new_topic'' []) =
      Inl (Wrapped ''failed to insert topic'' ErrDriver)"
    by (simp add: GetOrCreateTopic_def store_eval)
  have w3: "InsertNotification {(OpGetOrCreateTopic, Exec)} ?s ?new =
      (?s, Inl (Wrapped ''failed to get or create topic''
                 (Wrapped ''failed to insert topic'' ErrDriver)))"
    using InsertNotification_error_state
      [where fails = "{(OpGetOrCreateTopic, Exec)}" and s = ?s and notif = ?new
         and e = "Wrapped ''failed to insert topic'' ErrDriver",
        THEN conjunct2, THEN conjunct2, THEN conjunct2, THEN conjunct1] vn g3
    by simp
  have g4: "snd (GetOrCreateTopic {(OpInsertNotification, Commit)} ?s ''status_test'' []) = Inr 1"
    by (simp add: GetOrCreateTopic_def store_eval)
  have w4: "InsertNotification {(OpInsertNotification, Commit)} ?s ?old =
      (?s, Inl (Wrapped ''failed to commit transaction'' ErrDriver))"
    using InsertNotification_error_state
      [where fails = "{(OpInsertNotification, Commit)}" and s = ?s and notif = ?old
         and topicID = 1,
        THEN conjunct2, THEN conjunct2, THEN conjunct2, THEN conjunct2, THEN conjunct1] vo g4
    by simp
  have g5: "snd (GetOrCreateTopic {(OpInsertNotification, Commit)} ?s ''new_topic'' []) = Inr 2"
    by (simp add: GetOrCreateTopic_def store_eval)
  have w5: "InsertNotification {(OpInsertNotification, Commit)} ?s ?new =
      (\<lparr>devices = [],
      topics = [\<lparr>topic_id = 1, topic_name = ''status_test'', description = []\<rparr>,
                \<lparr>topic_id = 2, topic_name = ''new_topic'', description = []\<rparr>],
      notifications = [\<lparr>notification_id = 1, notification_topic = 1, message = ''Test message'',
                        metadata = None, status = NotificationStatusInput\<rparr>],
      topics_seq = 2, notifications_seq = 1\<rparr>, Inl (Wrapped ''failed to commit transaction'' ErrDriver))"
    using InsertNotification_error_state
      [where fails = "{(OpInsertNotification, Commit)}" and s = ?s and notif = ?new
         and topicID = 2,
        THEN conjunct2, THEN conjunct2, THEN conjunct2, THEN conjunct2, THEN conjunct2,
        THEN conjunct1] vn g5
    by simp
  from w1 w2 w3 w4 w5 show ?thesis by (intro conjI)
qed

text \<open>
  Claim C4 as stated fails. On the empty database, let the \<^verbatim>\<open>INSERT\<close> of the notification
  fail in the driver: \<^verbatim>\<open>InsertNotification\<close> returns the error, and the topic row that
  \<^verbatim>\<open>GetOrCreateTopic\<close> created and committed remains.
\<close>

theorem InsertNotification_topic_remains_counterexample:
  "InsertNotification {(OpInsertNotification, Exec)} empty_database
       \<lparr>Topic = ''test_topic'', Metadata = None, Message = ''Test message''\<rparr> =
     (\<lparr>devices = [],
       topics = [\<lparr>topic_id = 1, topic_name = ''test_topic'', description = []\<rparr>],
       notifications = [], topics_seq = 1, notifications_seq = 0\<rparr>,
      Inl (Wrapped ''failed to insert notification'' ErrDriver)) \<and>
   topics empty_database = []"
  by (simp add: InsertNotification_def GetOrCreateTopic_def store_eval)

section \<open>Concurrent topic creation\<close>

text \<open>
  A call that runs alone, its five statements one after the other, is the method
  \<^verbatim>\<open>GetOrCreateTopic\<close> of the sequential model.
\<close>

lemma run_single_call:
  "run fails name descr [0, 0, 0, 0, 0] (concurrent_calls 1 name s) =
     \<lparr>committed = fst (GetOrCreateTopic fails s name descr), writer = None,
      running = [Returned (snd (GetOrCreateTopic fails s name descr))]\<rparr>"
proof (cases "validateTopic name")
  case (Some err)
  then show ?thesis
    by (simp add: concurrent_calls_def start_call_def topic_step_def GetOrCreateTopic_def)
next
  case None
  note defs = concurrent_calls_def start_call_def topic_step_def GetOrCreateTopic_def
  show ?thesis
  proof (cases "(OpGetOrCreateTopic, BeginTx) \<in> fails")
    case True
    with None show ?thesis by (simp add: defs)
  next
    case b: False
    show ?thesis
    proof (cases "(OpGetOrCreateTopic, QueryRow) \<in> fails")
      case True
      with None b show ?thesis by (simp add: defs)
    next
      case q: False
      show ?thesis
      proof (cases "select_topic_id s name")
        case (Some topicID)
        with None b q show ?thesis by (simp add: defs)
      next
        case sel: None
        then have new: "name \<notin> set (map topic_name (topics s))"
          by (simp add: select_topic_id_None)
        note ins = insert_topic_new [OF new, of descr]
        show ?thesis
        proof (cases "(OpGetOrCreateTopic, Exec) \<in> fails")
          case True
          with None b q sel show ?thesis by (simp add: defs)
        next
          case e: False
          show ?thesis
          proof (cases "(OpGetOrCreateTopic, LastInsertId) \<in> fails")
            case True
            with None b q sel e show ?thesis by (simp add: defs ins)
          next
            case l: False
            show ?thesis
            proof (cases "(OpGetOrCreateTopic, Commit) \<in> fails")
              case True
              with None b q sel e l show ?thesis by (simp add: defs ins)
            next
              case False
              with None b q sel e l show ?thesis by (simp add: defs ins)
            qed
          qed
        qed
      qed
    qed
  qed
qed

text \<open>
  Claim C8 says that concurrent calls of \<^verbatim>\<open>GetOrCreateTopic\<close> with one new name create
  one row, that none of them fails and that all return the same key; \<^verbatim>\<open>TestConcurrency\<close>
  asserts the same. The code creates one row but a call can fail: when two calls have
  both run their \<^verbatim>\<open>SELECT\<close> before either runs its \<^verbatim>\<open>INSERT\<close>, both find no row, the first
  inserts and commits, and the \<^verbatim>\<open>INSERT\<close> of the second violates the \<^verbatim>\<open>UNIQUE\<close> constraint
  of \<^verbatim>\<open>topic_name\<close>. The method does not retry; the second call returns the error
  \<open>failed to insert topic\<close> and no key.
\<close>

theorem concurrent_GetOrCreateTopic_fails:
  "run {} ''concurrent_topic'' ''description'' [0, 1, 0, 1, 0, 0, 0, 1]
     (concurrent_calls 2 ''concurrent_topic'' empty_database) =
   \<lparr>committed =
      \<lparr>devices = [],
        topics = [\<lparr>topic_id = 1, topic_name = ''concurrent_topic'',
                   description = ''description''\<rparr>],
        notifications = [], topics_seq = 1, notifications_seq = 0\<rparr>,
    writer = None,
    running = [Returned (Inr 1),
               Returned (Inl (Wrapped ''failed to insert topic'' ErrConstraint))]\<rparr>"
  by (simp add: concurrent_calls_def start_call_def topic_step_def store_eval numeral_2_eq_2)

end
